theory Spec2Isabelle
  imports Complex_Main "HOL-Library.Log_Nat"
begin

section \<open>Common types\<close>

text \<open>
  The repository is JavaScript. Strings are modelled as \<open>string\<close>, \<open>null\<close>/\<open>undefined\<close> as
  \<open>None\<close>, a thrown exception as \<open>Inl\<close> of a result, and the mutable objects of each class
  as a record that every method takes and returns.

  The durable store (Firestore), the AI backend and the chat transport are external to the
  repository. What they answer during one call of a method is given by an environment
  record \<open>Env\<close>; what is asked of them is appended to a trace kept in the state. All
  \<open>Date.now()\<close> readings of one call return \<open>now env\<close>. A method hands its environment
  on to the methods it calls, so within one call the store reads agree and the writes of
  one kind succeed or fail together. Promise chains that the source starts without
  awaiting them (\<open>.then(...)\<close>, \<open>.catch(console.error)\<close>) are run to their end at the place
  where they are started, so one call is over before the next begins; where two such chains
  of one call write back different copies of a state (\<open>completeGreeting\<close> below), both
  outcomes are modelled. \<open>console\<close> output is not modelled.
\<close>

datatype error =
    NotFound string
  | StoreFailure
  | BackendFailure
  | ResponseTimedOut
  | TransportFailure
  | CallbackFailure
  | TypeError

type_synonym 'a result = "error + 'a"

text \<open>A document of the collection \<open>character_states\<close>.\<close>

record CharacterState =
  group :: "string option"
  name :: string
  traits :: "string list"
  greetingCompleted :: bool
  identityEstablished :: bool
  lastInteraction :: int
  interactionCount :: int
  created :: int
  systemInstructions :: "string option"
  lastGroupChange :: "int option"
  contextReset :: "int option"
  lastUpdated :: "int option"

text \<open>
  The \<open>initialState\<close> argument of \<open>initializeCharacter\<close>: an object that may or may not
  have each key (\<open>None\<close>: the key is absent).
\<close>

record InitialState =
  seed_group :: "string option option"
  seed_name :: "string option"
  seed_traits :: "string list option"
  seed_greetingCompleted :: "bool option"
  seed_identityEstablished :: "bool option"
  seed_lastInteraction :: "int option"
  seed_interactionCount :: "int option"
  seed_created :: "int option"
  seed_systemInstructions :: "string option"
  seed_lastGroupChange :: "int option"
  seed_contextReset :: "int option"
  seed_lastUpdated :: "int option"

text \<open>A document of the collection \<open>characters\<close>.\<close>

record CharacterConfig =
  cfg_name :: string
  cfg_greeting :: "string option"
  cfg_systemInstructions :: string
  cfg_group :: "string option"

text \<open>The \<open>interaction\<close> argument of \<open>logInteraction\<close>.\<close>

record Interaction =
  int_type :: string
  int_message :: string
  int_userId :: "string option"
  int_channelId :: "string option"

datatype store_call =
    StoreGet string string
  | StoreSet string string
  | StoreMerge string string
  | StoreUpdate string string
  | StoreAdd string

text \<open>
  A JavaScript number: an IEEE 754 double, that is \<open>NaN\<close>, an infinity, or a finite value.
  The two zeros are not told apart: nothing in the code that is modelled divides by a
  number or otherwise reads the sign of a zero.
\<close>

datatype double = NotANumber | MinusInfinity | Finite real | PlusInfinity

text \<open>
  An entry of \<open>userActivities\<close>. Each magnitude is the number that the scoring rule
  multiplies: \<open>NaN\<close> for a property that the activity does not have.
\<close>

record Activity =
  act_type :: string
  depth :: double
  reflection :: double
  persistence :: double
  creativity :: double
  generosity :: double

text \<open>The object \<open>metrics.categories\<close>, with its keys in insertion order.\<close>

type_synonym categories = "(string \<times> double) list"

datatype Metrics =
  Metrics (m_timestamp: int) (m_userId: string) (m_categories: categories)
    (m_history: "Metrics list") (m_primaryGroup: "string option")

text \<open>
  Modelled from the spec: the class \<open>GenAILiveClient\<close> (\<open>lib/genai-live-client\<close>) is not
  among the sources. The specification describes the AI backend as a connect/disconnect
  session exposing \<open>send(text, isSystemDirective)\<close>, with event callbacks for incremental
  text, turn-complete and error. One turn is then: text chunks followed by \<open>'complete'\<close>,
  text chunks followed by \<open>'error'\<close>, or text chunks and then nothing until the timer of
  the caller fires.
\<close>

datatype turn =
    Completed "string list"
  | Failed "string list"
  | Silent "string list"

text \<open>
  The environment of one call: the clock, whether store reads, writes and appends succeed,
  the documents a read finds, whether the backend connects and how its turn ends, which of
  two competing write-backs reaches the cache last when a greeting completes, whether
  the transport lets a channel be watched, accepts the reply and the error notice, the
  message ids it assigns to them, and whether the \<open>handleMessage\<close> callback returns.
\<close>

record Env =
  now :: int
  read_ok :: bool
  write_ok :: bool
  add_ok :: bool
  state_docs :: "string \<rightharpoonup> CharacterState"
  character_docs :: "string \<rightharpoonup> CharacterConfig"
  metrics_docs :: "string \<rightharpoonup> Metrics"
  connect_ok :: bool
  backend_turn :: turn
  greeting_write_last :: bool
  watch_ok :: bool
  send_ok :: bool
  reply_id :: string
  notice_ok :: bool
  notice_id :: string
  callback_ok :: bool

section \<open>CharacterStateManager\<close>

record Manager =
  stateCache :: "string \<rightharpoonup> CharacterState"
  conversationFlags :: "string \<rightharpoonup> (string \<rightharpoonup> bool)"
  firestore :: "store_call list"

definition getCharacterState_try ::
  "Env \<Rightarrow> string \<Rightarrow> Manager \<Rightarrow> CharacterState option result \<times> Manager" where
  "getCharacterState_try env characterId m =
     (case stateCache m characterId of
        Some st \<Rightarrow> (Inr (Some st), m)
      | None \<Rightarrow>
          (let m1 = m\<lparr>firestore := firestore m @ [StoreGet ''character_states'' characterId]\<rparr>
           in if \<not> read_ok env then (Inl StoreFailure, m1)
              else (case state_docs env characterId of
                      None \<Rightarrow> (Inr None, m1)
                    | Some st \<Rightarrow>
                        (Inr (Some st),
                         m1\<lparr>stateCache := (stateCache m1)(characterId \<mapsto> st)\<rparr>))))"

text \<open>The \<open>catch\<close> of \<open>getCharacterState\<close> turns every failure into \<open>null\<close>.\<close>

definition getCharacterState ::
  "Env \<Rightarrow> string \<Rightarrow> Manager \<Rightarrow> CharacterState option \<times> Manager" where
  "getCharacterState env characterId m =
     (case getCharacterState_try env characterId m of
        (Inl e, m1) \<Rightarrow> (None, m1)
      | (Inr r, m1) \<Rightarrow> (r, m1))"

text \<open>
  The object literal of \<open>initializeCharacter\<close> before its last entry \<open>...initialState\<close>;
  \<open>a || b\<close> is \<open>b\<close> when \<open>a\<close> is absent or the empty string.
\<close>

definition defaultFields :: "int \<Rightarrow> InitialState \<Rightarrow> CharacterState" where
  "defaultFields t i =
     \<lparr> group = None,
       name = (case seed_name i of
                 None \<Rightarrow> ''Character''
               | Some n \<Rightarrow> if n = [] then ''Character'' else n),
       traits = (case seed_traits i of None \<Rightarrow> [] | Some ts \<Rightarrow> ts),
       greetingCompleted = False,
       identityEstablished = False,
       lastInteraction = t,
       interactionCount = 0,
       created = t,
       systemInstructions = None,
       lastGroupChange = None,
       contextReset = None,
       lastUpdated = None \<rparr>"

text \<open>The spread \<open>...initialState\<close>: every key the seed has replaces the entry before it.\<close>

definition spreadInitialState :: "InitialState \<Rightarrow> CharacterState \<Rightarrow> CharacterState" where
  "spreadInitialState i st =
     st\<lparr> group := (case seed_group i of None \<Rightarrow> group st | Some g \<Rightarrow> g),
         name := (case seed_name i of None \<Rightarrow> name st | Some n \<Rightarrow> n),
         traits := (case seed_traits i of None \<Rightarrow> traits st | Some ts \<Rightarrow> ts),
         greetingCompleted :=
           (case seed_greetingCompleted i of None \<Rightarrow> greetingCompleted st | Some b \<Rightarrow> b),
         identityEstablished :=
           (case seed_identityEstablished i of None \<Rightarrow> identityEstablished st | Some b \<Rightarrow> b),
         lastInteraction :=
           (case seed_lastInteraction i of None \<Rightarrow> lastInteraction st | Some t \<Rightarrow> t),
         interactionCount :=
           (case seed_interactionCount i of None \<Rightarrow> interactionCount st | Some n \<Rightarrow> n),
         created := (case seed_created i of None \<Rightarrow> created st | Some t \<Rightarrow> t),
         systemInstructions :=
           (case seed_systemInstructions i of None \<Rightarrow> systemInstructions st | Some s \<Rightarrow> Some s),
         lastGroupChange :=
           (case seed_lastGroupChange i of None \<Rightarrow> lastGroupChange st | Some t \<Rightarrow> Some t),
         contextReset :=
           (case seed_contextReset i of None \<Rightarrow> contextReset st | Some t \<Rightarrow> Some t),
         lastUpdated :=
           (case seed_lastUpdated i of None \<Rightarrow> lastUpdated st | Some t \<Rightarrow> Some t) \<rparr>"

definition defaultState :: "int \<Rightarrow> InitialState \<Rightarrow> CharacterState" where
  "defaultState t i = spreadInitialState i (defaultFields t i)"

text \<open>The default argument \<open>initialState = {}\<close>.\<close>

definition emptyInitialState :: InitialState where
  "emptyInitialState =
     \<lparr> seed_group = None, seed_name = None, seed_traits = None,
       seed_greetingCompleted = None, seed_identityEstablished = None,
       seed_lastInteraction = None, seed_interactionCount = None, seed_created = None,
       seed_systemInstructions = None, seed_lastGroupChange = None,
       seed_contextReset = None, seed_lastUpdated = None \<rparr>"

definition initializeCharacter ::
  "Env \<Rightarrow> string \<Rightarrow> InitialState \<Rightarrow> Manager \<Rightarrow> CharacterState result \<times> Manager" where
  "initializeCharacter env characterId initialState m =
     (case getCharacterState env characterId m of
        (Some existingState, m1) \<Rightarrow> (Inr existingState, m1)
      | (None, m1) \<Rightarrow>
          (let st = defaultState (now env) initialState;
               m2 = m1\<lparr>firestore := firestore m1 @ [StoreSet ''character_states'' characterId]\<rparr>
           in if \<not> write_ok env then (Inl StoreFailure, m2)
              else (Inr st, m2\<lparr>stateCache := (stateCache m2)(characterId \<mapsto> st)\<rparr>)))"

definition setConversationFlag :: "string \<Rightarrow> string \<Rightarrow> bool \<Rightarrow> Manager \<Rightarrow> Manager" where
  "setConversationFlag characterId flag v m =
     (let inner = (case conversationFlags m characterId of None \<Rightarrow> Map.empty | Some f \<Rightarrow> f)
      in m\<lparr>conversationFlags := (conversationFlags m)(characterId \<mapsto> inner(flag \<mapsto> v))\<rparr>)"

definition getConversationFlag :: "string \<Rightarrow> string \<Rightarrow> Manager \<Rightarrow> bool option" where
  "getConversationFlag characterId flag m =
     (case conversationFlags m characterId of None \<Rightarrow> None | Some f \<Rightarrow> f flag)"

definition clearConversationFlag :: "string \<Rightarrow> string \<Rightarrow> Manager \<Rightarrow> Manager" where
  "clearConversationFlag characterId flag m =
     (case conversationFlags m characterId of
        None \<Rightarrow> m
      | Some f \<Rightarrow> m\<lparr>conversationFlags := (conversationFlags m)(characterId \<mapsto> f(flag := None))\<rparr>)"

definition updateGroup ::
  "Env \<Rightarrow> string \<Rightarrow> string option \<Rightarrow> Manager \<Rightarrow> CharacterState result \<times> Manager" where
  "updateGroup env characterId groupId m =
     (case getCharacterState env characterId m of
        (None, m1) \<Rightarrow> (Inl (NotFound characterId), m1)
      | (Some st, m1) \<Rightarrow>
          (let isGroupChange = (group st \<noteq> groupId);
               updatedState =
                 st\<lparr> group := groupId,
                     lastGroupChange :=
                       (if isGroupChange then Some (now env) else lastGroupChange st),
                     identityEstablished :=
                       (if isGroupChange then False else identityEstablished st),
                     contextReset := (if isGroupChange then Some (now env) else contextReset st),
                     lastUpdated := Some (now env) \<rparr>;
               m2 = m1\<lparr>firestore := firestore m1 @ [StoreMerge ''character_states'' characterId]\<rparr>
           in if \<not> write_ok env then (Inl StoreFailure, m2)
              else (let m3 = m2\<lparr>stateCache := (stateCache m2)(characterId \<mapsto> updatedState)\<rparr>;
                        m4 = (if isGroupChange
                              then setConversationFlag characterId ''resetRequired'' True m3
                              else m3)
                    in (Inr updatedState, m4))))"

definition markGreetingCompleted ::
  "Env \<Rightarrow> string \<Rightarrow> Manager \<Rightarrow> CharacterState result \<times> Manager" where
  "markGreetingCompleted env characterId m =
     (case getCharacterState env characterId m of
        (None, m1) \<Rightarrow> (Inl (NotFound characterId), m1)
      | (Some st, m1) \<Rightarrow>
          (let updatedState = st\<lparr>greetingCompleted := True, lastUpdated := Some (now env)\<rparr>;
               m2 = m1\<lparr>firestore := firestore m1 @ [StoreUpdate ''character_states'' characterId]\<rparr>
           in if \<not> write_ok env then (Inl StoreFailure, m2)
              else (Inr updatedState,
                    m2\<lparr>stateCache := (stateCache m2)(characterId \<mapsto> updatedState)\<rparr>)))"

definition markIdentityEstablished ::
  "Env \<Rightarrow> string \<Rightarrow> Manager \<Rightarrow> CharacterState result \<times> Manager" where
  "markIdentityEstablished env characterId m =
     (case getCharacterState env characterId m of
        (None, m1) \<Rightarrow> (Inl (NotFound characterId), m1)
      | (Some st, m1) \<Rightarrow>
          (let updatedState = st\<lparr>identityEstablished := True, lastUpdated := Some (now env)\<rparr>;
               m2 = m1\<lparr>firestore := firestore m1 @ [StoreUpdate ''character_states'' characterId]\<rparr>
           in if \<not> write_ok env then (Inl StoreFailure, m2)
              else (Inr updatedState,
                    m2\<lparr>stateCache := (stateCache m2)(characterId \<mapsto> updatedState)\<rparr>)))"

text \<open>
  The \<open>try\<close> block of \<open>logInteraction\<close>: the log entry is added first, and the counters are
  written and cached only after the \<open>add\<close> has returned.
\<close>

definition logInteraction_try ::
  "Env \<Rightarrow> string \<Rightarrow> Interaction \<Rightarrow> Manager \<Rightarrow> unit result \<times> Manager" where
  "logInteraction_try env characterId interaction m =
     (case getCharacterState env characterId m of
        (None, m1) \<Rightarrow> (Inl (NotFound characterId), m1)
      | (Some st, m1) \<Rightarrow>
          (let updatedState =
                 st\<lparr> interactionCount := interactionCount st + 1,
                     lastInteraction := now env,
                     lastUpdated := Some (now env) \<rparr>;
               m2 = m1\<lparr>firestore := firestore m1 @ [StoreAdd ''character_interactions'']\<rparr>
           in if \<not> add_ok env then (Inl StoreFailure, m2)
              else (let m3 = m2\<lparr>firestore :=
                                   firestore m2 @ [StoreUpdate ''character_states'' characterId]\<rparr>
                    in if \<not> write_ok env then (Inl StoreFailure, m3)
                       else (Inr (),
                             m3\<lparr>stateCache := (stateCache m3)(characterId \<mapsto> updatedState)\<rparr>))))"

text \<open>The \<open>catch\<close> of \<open>logInteraction\<close> prints the error and does not throw it again.\<close>

definition logInteraction ::
  "Env \<Rightarrow> string \<Rightarrow> Interaction \<Rightarrow> Manager \<Rightarrow> unit result \<times> Manager" where
  "logInteraction env characterId interaction m =
     (case logInteraction_try env characterId interaction m of
        (Inl e, m1) \<Rightarrow> (Inr (), m1)
      | (Inr u, m1) \<Rightarrow> (Inr u, m1))"

text \<open>JavaScript truthiness of a value that is \<open>null\<close> or a string, and its rendering in a template.\<close>

definition truthy :: "string option \<Rightarrow> bool" where
  "truthy v = (case v of None \<Rightarrow> False | Some s \<Rightarrow> s \<noteq> [])"

definition render :: "string option \<Rightarrow> string" where
  "render v = (case v of None \<Rightarrow> ''null'' | Some s \<Rightarrow> s)"

definition paragraph_break :: string where
  "paragraph_break = [CHR 0x0A, CHR 0x0A]"

definition groupClause :: "string option \<Rightarrow> string" where
  "groupClause g = paragraph_break @ ''IMPORTANT: You are a member of the '' @ render g
     @ ''. This is a permanent part of your identity.''"

definition identityClause :: string where
  "identityClause = paragraph_break @ ''IMPORTANT: You have already introduced yourself to the user. Do not reintroduce yourself in each message. Continue the conversation naturally as if your identity is already established and known to the user.''"

definition greetingClause :: string where
  "greetingClause = paragraph_break @ ''IMPORTANT: This is your first interaction with this user. Start with a warm greeting that introduces yourself and establishes your character.''"

definition resetClause :: "string option \<Rightarrow> string" where
  "resetClause g = paragraph_break @ ''CRITICAL: You have just become a member of the '' @ render g
     @ ''. This is now a permanent part of your identity. Do not reference any previous group affiliations.''"

definition getEnhancedSystemInstructions ::
  "Env \<Rightarrow> string \<Rightarrow> string \<Rightarrow> Manager \<Rightarrow> string \<times> Manager" where
  "getEnhancedSystemInstructions env characterId baseInstructions m =
     (case getCharacterState env characterId m of
        (None, m1) \<Rightarrow> (baseInstructions, m1)
      | (Some st, m1) \<Rightarrow>
          (let e1 = (if truthy (group st) then baseInstructions @ groupClause (group st)
                     else baseInstructions);
               e2 = (if identityEstablished st then e1 @ identityClause else e1);
               e3 = (if \<not> greetingCompleted st then e2 @ greetingClause else e2)
           in if getConversationFlag characterId ''resetRequired'' m1 = Some True
              then (e3 @ resetClause (group st),
                    clearConversationFlag characterId ''resetRequired'' m1)
              else (e3, m1)))"

section \<open>CustomCharacterService\<close>

text \<open>
  Modelled from the spec: a \<open>GenAILiveClient\<close> (not among the sources) as this service
  uses it, a session that is connected or not and that holds the instruction text it was
  configured with. \<open>turnListeners\<close> counts the \<open>'complete'\<close> handlers that
  \<open>sendMessageToCharacter\<close> has attached: the source never detaches them, so each later
  \<open>'complete'\<close> event of the same client runs all of them.
\<close>

record Client =
  connected :: bool
  systemInstruction :: string
  turnListeners :: nat

datatype backend_call =
    Connect string
  | Disconnect string
  | Send string string bool

record Service =
  stateManager :: Manager
  characterClients :: "string \<rightharpoonup> Client"
  characters :: "store_call list"
  backend :: "backend_call list"

definition getCharacter :: "Env \<Rightarrow> string \<Rightarrow> Service \<Rightarrow> CharacterConfig result \<times> Service" where
  "getCharacter env characterId svc =
     (let s1 = svc\<lparr>characters := characters svc @ [StoreGet ''characters'' characterId]\<rparr>
      in case characterClients svc characterId of
           Some client \<Rightarrow>
             if \<not> read_ok env then (Inl StoreFailure, s1)
             else (case character_docs env characterId of
                     None \<Rightarrow> (Inl (NotFound characterId), s1)
                   | Some characterConfig \<Rightarrow> (Inr characterConfig, s1))
         | None \<Rightarrow>
             if \<not> read_ok env then (Inl StoreFailure, s1)
             else (case character_docs env characterId of
                     None \<Rightarrow> (Inl (NotFound characterId), s1)
                   | Some characterConfig \<Rightarrow>
                       (let (state, m1) = getCharacterState env characterId (stateManager s1);
                            (enhancedInstructions, m2) =
                              getEnhancedSystemInstructions env characterId
                                (cfg_systemInstructions characterConfig) m1;
                            characterClient =
                              \<lparr> connected = False,
                                systemInstruction = enhancedInstructions,
                                turnListeners = 0 \<rparr>
                        in (Inr characterConfig,
                            s1\<lparr> stateManager := m2,
                                characterClients :=
                                  (characterClients s1)(characterId \<mapsto> characterClient) \<rparr>))))"

definition disconnectClient :: "string \<Rightarrow> Service \<Rightarrow> Service" where
  "disconnectClient characterId svc =
     (case characterClients svc characterId of
        None \<Rightarrow> svc
      | Some client \<Rightarrow>
          svc\<lparr> backend := backend svc @ [Disconnect characterId],
               characterClients :=
                 (characterClients svc)(characterId \<mapsto> client\<lparr>connected := False\<rparr>) \<rparr>)"

definition updateCharacterGroup ::
  "Env \<Rightarrow> string \<Rightarrow> string option \<Rightarrow> Service \<Rightarrow> unit result \<times> Service" where
  "updateCharacterGroup env characterId groupId svc =
     (case updateGroup env characterId groupId (stateManager svc) of
        (Inl e, m1) \<Rightarrow> (Inl e, svc\<lparr>stateManager := m1\<rparr>)
      | (Inr st, m1) \<Rightarrow>
          (let s1 = svc\<lparr> stateManager := m1,
                          characters := characters svc @ [StoreUpdate ''characters'' characterId] \<rparr>
           in if \<not> write_ok env then (Inl StoreFailure, s1)
              else if characterClients s1 characterId = None then (Inr (), s1)
              else (case getCharacter env characterId s1 of
                      (Inl e, s2) \<Rightarrow> (Inl e, s2)
                    | (Inr character, s2) \<Rightarrow> (Inr (), disconnectClient characterId s2))))"

text \<open>
  The body of the \<open>'complete'\<close> handler of \<open>sendMessageToCharacter\<close>; both of its
  \<open>.catch(console.error)\<close> drop a failure.
\<close>

definition establishIdentity :: "Env \<Rightarrow> string \<Rightarrow> Manager \<Rightarrow> Manager" where
  "establishIdentity env characterId m =
     (case getCharacterState env characterId m of
        (None, m1) \<Rightarrow> m1
      | (Some st, m1) \<Rightarrow>
          if interactionCount st \<le> 2 \<and> \<not> identityEstablished st
          then snd (markIdentityEstablished env characterId m1)
          else m1)"

text \<open>A \<open>'complete'\<close> event runs every handler left attached by earlier message turns.\<close>

definition runTurnListeners :: "Env \<Rightarrow> string \<Rightarrow> nat \<Rightarrow> Manager \<Rightarrow> Manager" where
  "runTurnListeners env characterId n m = ((establishIdentity env characterId) ^^ n) m"

definition apostrophe :: string where
  "apostrophe = [CHR 0x27]"

definition greetingDirective :: "CharacterConfig \<Rightarrow> string" where
  "greetingDirective character =
     (let greeting = (if truthy (cfg_greeting character) then render (cfg_greeting character)
                      else ''Hello! I'' @ apostrophe @ ''m '' @ cfg_name character @ ''.'')
      in ''[SYSTEM: This is your first interaction with this user. Use your character-specific greeting: ''
         @ [CHR 0x22] @ greeting @ [CHR 0x22] @ '']'')"

text \<open>
  A greeting turn that completes. The \<open>'complete'\<close> event runs the handlers left attached
  by earlier message turns and then the handler of the greeting, which calls
  \<open>markGreetingCompleted\<close>; none of these chains is awaited. Each of them reads the state
  before any of them writes, since a write to the cache follows the answer of the store to
  the \<open>update\<close>: they all read the same state. The greeting's \<open>update\<close> is issued first,
  then one \<open>update\<close> for each earlier handler whose test passes. When the updates succeed,
  each chain puts its own copy of the state it read into the cache, with one flag set, and
  the copy that arrives last replaces the others; which one that is depends on the order of
  the store's answers and is taken from the environment. On a cache miss every chain asks
  the store.
\<close>

definition completeGreeting :: "Env \<Rightarrow> string \<Rightarrow> nat \<Rightarrow> Manager \<Rightarrow> Manager" where
  "completeGreeting env characterId n m =
     (let furtherReads = (if stateCache m characterId = None
                          then replicate n (StoreGet ''character_states'' characterId) else [])
      in case getCharacterState env characterId m of
           (None, m1) \<Rightarrow> m1\<lparr>firestore := firestore m1 @ furtherReads\<rparr>
         | (Some st, m1) \<Rightarrow>
             (let establishes = (0 < n \<and> interactionCount st \<le> 2 \<and> \<not> identityEstablished st);
                  m2 = m1\<lparr>firestore :=
                            firestore m1 @ furtherReads
                              @ [StoreUpdate ''character_states'' characterId]
                              @ (if establishes
                                 then replicate n (StoreUpdate ''character_states'' characterId)
                                 else [])\<rparr>
              in if \<not> write_ok env then m2
                 else m2\<lparr>stateCache := (stateCache m2)(characterId \<mapsto>
                         (if establishes \<and> \<not> greeting_write_last env
                          then st\<lparr>identityEstablished := True, lastUpdated := Some (now env)\<rparr>
                          else st\<lparr>greetingCompleted := True, lastUpdated := Some (now env)\<rparr>))\<rparr>))"

text \<open>
  \<open>initializeCharacterSession\<close>. Its \<open>catch\<close> returns \<open>false\<close>; a turn that does not
  complete ends in the 10 second timer, which resolves \<open>false\<close>.
\<close>

definition initializeCharacterSession ::
  "Env \<Rightarrow> string \<Rightarrow> bool \<Rightarrow> Service \<Rightarrow> bool \<times> Service" where
  "initializeCharacterSession env characterId forceGreeting svc =
     (case getCharacter env characterId svc of
        (Inl e, s1) \<Rightarrow> (False, s1)
      | (Inr character, s1) \<Rightarrow>
          (let (state, m1) = getCharacterState env characterId (stateManager s1);
               s2 = s1\<lparr>stateManager := m1\<rparr>
           in if (case state of None \<Rightarrow> False | Some st \<Rightarrow> greetingCompleted st) \<and> \<not> forceGreeting
              then (True, s2)
              else (case characterClients s2 characterId of
                      None \<Rightarrow> (False, s2)
                    | Some client \<Rightarrow>
                        (let s3 = s2\<lparr>backend := backend s2 @ [Connect characterId]\<rparr>
                         in if \<not> connect_ok env then (False, s3)
                            else (let s4 = s3\<lparr> characterClients :=
                                                  (characterClients s3)
                                                    (characterId \<mapsto> client\<lparr>connected := True\<rparr>),
                                                backend :=
                                                  backend s3 @
                                                    [Send characterId (greetingDirective character) True] \<rparr>
                                  in (case backend_turn env of
                                        Completed chunks \<Rightarrow>
                                          (True,
                                           s4\<lparr>stateManager :=
                                                completeGreeting env characterId
                                                  (turnListeners client) (stateManager s4)\<rparr>)
                                      | Failed chunks \<Rightarrow> (False, s4)
                                      | Silent chunks \<Rightarrow> (False, s4)))))))"

text \<open>
  \<open>sendMessageToCharacter\<close>. The interaction is logged before the backend is used; the
  15 second timer resolves with the text received so far, or rejects when there is none.
\<close>

definition sendMessageToCharacter ::
  "Env \<Rightarrow> string \<Rightarrow> string \<Rightarrow> string option \<Rightarrow> string option \<Rightarrow> Service
     \<Rightarrow> string result \<times> Service" where
  "sendMessageToCharacter env characterId message userId channelId svc =
     (case getCharacter env characterId svc of
        (Inl e, s1) \<Rightarrow> (Inl e, s1)
      | (Inr character, s1) \<Rightarrow>
          (let m1 = snd (logInteraction env characterId
                           \<lparr> int_type = ''message'', int_message = message,
                             int_userId = userId, int_channelId = channelId \<rparr>
                           (stateManager s1));
               s2 = s1\<lparr>stateManager := m1\<rparr>
           in (case characterClients s2 characterId of
                 None \<Rightarrow> (Inl TypeError, s2)
               | Some client \<Rightarrow>
                   (let s3 = (if connected client then s2
                              else s2\<lparr>backend := backend s2 @ [Connect characterId]\<rparr>)
                    in if \<not> connected client \<and> \<not> connect_ok env then (Inl BackendFailure, s3)
                       else (let client1 = client\<lparr> connected := True,
                                                   turnListeners := Suc (turnListeners client) \<rparr>;
                                 s4 = s3\<lparr> characterClients :=
                                            (characterClients s3)(characterId \<mapsto> client1),
                                          backend := backend s3 @ [Send characterId message False] \<rparr>
                             in (case backend_turn env of
                                   Completed chunks \<Rightarrow>
                                     (Inr (concat chunks),
                                      s4\<lparr>stateManager :=
                                           runTurnListeners env characterId (turnListeners client1)
                                             (stateManager s4)\<rparr>)
                                 | Failed chunks \<Rightarrow> (Inl BackendFailure, s4)
                                 | Silent chunks \<Rightarrow>
                                     if concat chunks = [] then (Inl ResponseTimedOut, s4)
                                     else (Inr (concat chunks), s4)))))))"

section \<open>Number arithmetic\<close>

text \<open>
  The operations on numbers that \<open>calculateUserMetrics\<close> uses, as the language defines them
  for IEEE 754 binary64 values. \<open>binade x\<close> is the exponent \<open>e\<close> with
  \<open>2^e \<le> \<bar>x\<bar> < 2^(e+1)\<close>, and \<open>-1022\<close> below the normal range; doubles in that binade
  are the multiples of \<open>2^(e-52)\<close>.
\<close>

definition binade :: "real \<Rightarrow> int" where
  "binade x =
     (let a = \<bar>x\<bar>
      in if a < 2 powi (- 1022) then - 1022
         else if 1 \<le> a then bitlen \<lfloor>a\<rfloor> - 1
         else - bitlen (\<lceil>1 / a\<rceil> - 1))"

text \<open>The nearest integer, the even one of the two when they are equally near.\<close>

definition nearest_even :: "real \<Rightarrow> int" where
  "nearest_even q =
     (let n = \<lfloor>q\<rfloor>; r = q - of_int n
      in if r < 1 / 2 then n else if 1 / 2 < r then n + 1 else if even n then n else n + 1)"

text \<open>
  The double that an exact result rounds to: an infinity from \<open>2^1024 - 2^970\<close> on, half a
  step past the largest double \<open>2^1024 - 2^971\<close>.
\<close>

definition round_double :: "real \<Rightarrow> double" where
  "round_double x =
     (if 2 ^ 1024 - 2 ^ 970 \<le> \<bar>x\<bar> then (if x < 0 then MinusInfinity else PlusInfinity)
      else (let u = 2 powi (binade x - 52) in Finite (of_int (nearest_even (x / u)) * u)))"

text \<open>\<open>a + b\<close>.\<close>

fun plus_js :: "double \<Rightarrow> double \<Rightarrow> double" where
  "plus_js NotANumber b = NotANumber"
| "plus_js a NotANumber = NotANumber"
| "plus_js (Finite x) (Finite y) = round_double (x + y)"
| "plus_js PlusInfinity MinusInfinity = NotANumber"
| "plus_js MinusInfinity PlusInfinity = NotANumber"
| "plus_js PlusInfinity b = PlusInfinity"
| "plus_js MinusInfinity b = MinusInfinity"
| "plus_js a PlusInfinity = PlusInfinity"
| "plus_js a MinusInfinity = MinusInfinity"

text \<open>\<open>a * b\<close>.\<close>

fun times_js :: "double \<Rightarrow> double \<Rightarrow> double" where
  "times_js NotANumber b = NotANumber"
| "times_js a NotANumber = NotANumber"
| "times_js (Finite x) (Finite y) = round_double (x * y)"
| "times_js (Finite x) PlusInfinity =
     (if x = 0 then NotANumber else if 0 < x then PlusInfinity else MinusInfinity)"
| "times_js (Finite x) MinusInfinity =
     (if x = 0 then NotANumber else if 0 < x then MinusInfinity else PlusInfinity)"
| "times_js PlusInfinity (Finite y) =
     (if y = 0 then NotANumber else if 0 < y then PlusInfinity else MinusInfinity)"
| "times_js MinusInfinity (Finite y) =
     (if y = 0 then NotANumber else if 0 < y then MinusInfinity else PlusInfinity)"
| "times_js PlusInfinity PlusInfinity = PlusInfinity"
| "times_js MinusInfinity MinusInfinity = PlusInfinity"
| "times_js PlusInfinity MinusInfinity = MinusInfinity"
| "times_js MinusInfinity PlusInfinity = MinusInfinity"

text \<open>\<open>a > b\<close>: false when either side is \<open>NaN\<close>.\<close>

fun greater_js :: "double \<Rightarrow> double \<Rightarrow> bool" where
  "greater_js NotANumber b = False"
| "greater_js a NotANumber = False"
| "greater_js (Finite x) (Finite y) = (y < x)"
| "greater_js PlusInfinity b = (b \<noteq> PlusInfinity)"
| "greater_js a MinusInfinity = (a \<noteq> MinusInfinity)"
| "greater_js a b = False"

text \<open>\<open>Math.max(a, b)\<close> and \<open>Math.min(a, b)\<close>: \<open>NaN\<close> when either argument is \<open>NaN\<close>.\<close>

definition Math_max :: "double \<Rightarrow> double \<Rightarrow> double" where
  "Math_max a b =
     (if a = NotANumber \<or> b = NotANumber then NotANumber else if greater_js b a then b else a)"

definition Math_min :: "double \<Rightarrow> double \<Rightarrow> double" where
  "Math_min a b =
     (if a = NotANumber \<or> b = NotANumber then NotANumber else if greater_js a b then b else a)"

section \<open>MetricsCalculationService\<close>

record MetricsService =
  user_metrics :: "store_call list"

definition getUserMetrics :: "Env \<Rightarrow> string \<Rightarrow> MetricsService \<Rightarrow> Metrics option \<times> MetricsService" where
  "getUserMetrics env userId ms =
     (let ms1 = ms\<lparr>user_metrics := user_metrics ms @ [StoreGet ''user_metrics'' userId]\<rparr>
      in if \<not> read_ok env then (None, ms1) else (metrics_docs env userId, ms1))"

definition storeMetrics :: "Env \<Rightarrow> string \<Rightarrow> Metrics \<Rightarrow> MetricsService \<Rightarrow> unit result \<times> MetricsService" where
  "storeMetrics env userId metrics ms =
     (let ms1 = ms\<lparr>user_metrics := user_metrics ms @ [StoreSet ''user_metrics'' userId]\<rparr>
      in if \<not> write_ok env then (Inl StoreFailure, ms1) else (Inr (), ms1))"

definition baselineCategories :: categories where
  "baselineCategories =
     [(''alpha'', Finite 0), (''beta'', Finite 0), (''gamma'', Finite 0), (''delta'', Finite 0),
      (''epsilon'', Finite 0)]"

text \<open>\<open>categories[k] += x\<close> on a key the object has.\<close>

definition addTo :: "string \<Rightarrow> double \<Rightarrow> categories \<Rightarrow> categories" where
  "addTo k x cs = map (\<lambda>(k', v). if k' = k then (k', plus_js v x) else (k', v)) cs"

text \<open>
  The \<open>switch\<close> on \<open>activity.type\<close>; any other type changes nothing. A literal such as
  \<open>0.7\<close> denotes the double nearest to it.
\<close>

definition applyActivity :: "categories \<Rightarrow> Activity \<Rightarrow> categories" where
  "applyActivity cs activity =
     (if act_type activity = ''conversation''
      then addTo ''delta'' (times_js (reflection activity) (round_double (7 / 10)))
             (addTo ''beta'' (times_js (depth activity) (round_double (5 / 10))) cs)
      else if act_type activity = ''challenge''
      then addTo ''gamma'' (times_js (creativity activity) (round_double (6 / 10)))
             (addTo ''alpha'' (times_js (persistence activity) (round_double (8 / 10))) cs)
      else if act_type activity = ''sharing''
      then addTo ''epsilon'' (times_js (generosity activity) (round_double (9 / 10))) cs
      else cs)"

definition normalizeCategories :: "categories \<Rightarrow> categories" where
  "normalizeCategories cs =
     map (\<lambda>(k, v). (k, Math_min (Math_max v (Finite 0)) (Finite 10))) cs"

text \<open>\<open>a > b\<close> on two property reads; a read of a missing key compares false.\<close>

definition greaterThan_js :: "double option \<Rightarrow> double option \<Rightarrow> bool" where
  "greaterThan_js a b = (case (a, b) of (Some x, Some y) \<Rightarrow> greater_js x y | _ \<Rightarrow> False)"

text \<open>The \<open>reduce\<close> over \<open>Object.keys(metrics.categories)\<close>, started at the first key.\<close>

definition primaryGroupOf :: "categories \<Rightarrow> string option" where
  "primaryGroupOf cs =
     (case map fst cs of
        [] \<Rightarrow> None
      | k0 # ks \<Rightarrow>
          Some (foldl (\<lambda>mx category.
                         if greaterThan_js (map_of cs category) (map_of cs mx) then category else mx)
                  k0 (k0 # ks)))"

definition calculateUserMetrics ::
  "Env \<Rightarrow> string \<Rightarrow> Activity list \<Rightarrow> MetricsService \<Rightarrow> Metrics result \<times> MetricsService" where
  "calculateUserMetrics env userId userActivities ms =
     (let (previousMetrics, ms1) = getUserMetrics env userId ms;
          history = (case previousMetrics of
                       None \<Rightarrow> []
                     | Some previous \<Rightarrow> m_history previous @ [previous]);
          scored = foldl applyActivity baselineCategories userActivities;
          normalized = normalizeCategories scored;
          metrics = Metrics (now env) userId normalized history (primaryGroupOf normalized)
      in case storeMetrics env userId metrics ms1 of
           (Inl e, ms2) \<Rightarrow> (Inl e, ms2)
         | (Inr u, ms2) \<Rightarrow> (Inr metrics, ms2))"

text \<open>
  A number that is neither \<open>NaN\<close> nor an infinity, and the activities in which every
  magnitude that the scoring rule of their type reads is such a number.
\<close>

definition finiteNumber :: "double \<Rightarrow> bool" where
  "finiteNumber d = (case d of Finite x \<Rightarrow> \<bar>x\<bar> \<le> 2 ^ 1024 - 2 ^ 971 | _ \<Rightarrow> False)"

definition magnitudesFinite :: "Activity \<Rightarrow> bool" where
  "magnitudesFinite activity =
     (if act_type activity = ''conversation''
      then finiteNumber (depth activity) \<and> finiteNumber (reflection activity)
      else if act_type activity = ''challenge''
      then finiteNumber (persistence activity) \<and> finiteNumber (creativity activity)
      else if act_type activity = ''sharing''
      then finiteNumber (generosity activity)
      else True)"

section \<open>GetStreamIntegration\<close>

text \<open>\<open>String.prototype.split\<close> with a one-character separator.\<close>

fun js_split :: "char \<Rightarrow> string \<Rightarrow> string list" where
  "js_split sep [] = [Nil]"
| "js_split sep (c # cs) =
     (if c = sep then [] # js_split sep cs
      else (case js_split sep cs of
              [] \<Rightarrow> [c # Nil]
            | p # ps \<Rightarrow> (c # p) # ps))"

text \<open>
  \<open>parseInt(s, 10)\<close> on an ASCII string: leading white space, an optional sign, then the
  longest run of decimal digits; \<open>NaN\<close> when there is no digit. Values past \<open>2^53\<close>, which
  JavaScript rounds, are outside the model.
\<close>

datatype js_number = NaN | Num int

text \<open>The white space of JavaScript within ASCII (\<open>trim\<close>, \<open>parseInt\<close>).\<close>

definition is_js_space :: "char \<Rightarrow> bool" where
  "is_js_space c = (c \<in> set [CHR 0x09, CHR 0x0A, CHR 0x0B, CHR 0x0C, CHR 0x0D, CHR 0x20])"

definition is_digit :: "char \<Rightarrow> bool" where
  "is_digit c = (c \<in> set ''0123456789'')"

definition digit_value :: "char \<Rightarrow> int" where
  "digit_value c = int (of_char c) - 48"

definition parseInt10 :: "string \<Rightarrow> js_number" where
  "parseInt10 s =
     (let t = dropWhile is_js_space s;
          negative = (case t of [] \<Rightarrow> False | c # r \<Rightarrow> c = CHR ''-'');
          u = (case t of [] \<Rightarrow> [] | c # r \<Rightarrow> if c = CHR ''-'' \<or> c = CHR ''+'' then r else t);
          ds = takeWhile is_digit u;
          v = foldl (\<lambda>a d. 10 * a + digit_value d) 0 ds
      in if ds = [] then NaN else Num (if negative then - v else v))"

record ParsedChannel =
  p_userId :: "string option"
  p_characterId :: "string option"
  p_timestamp :: "js_number option"

definition parseChannelId :: "string \<Rightarrow> ParsedChannel" where
  "parseChannelId channelId =
     (let parts = js_split CHR ''_'' channelId
      in if length parts \<ge> 3
         then \<lparr> p_userId = Some (parts ! 0),
                p_characterId = Some (parts ! 1),
                p_timestamp = Some (parseInt10 (parts ! 2)) \<rparr>
         else \<lparr> p_userId = None, p_characterId = None, p_timestamp = None \<rparr>)"

text \<open>A message of the transport and the \<open>message.new\<close> event that carries it.\<close>

record Message =
  msg_id :: string
  msg_user_id :: string
  msg_text :: "string option"

record Event =
  ev_message :: "Message option"
  ev_channel_id :: "string option"
  ev_cid :: "string option"

text \<open>A \<open>channel.sendMessage\<close> call that the transport accepted.\<close>

record Outgoing =
  out_channel :: string
  out_text :: string
  out_user_id :: string
  out_character_name :: "string option"

text \<open>
  The orchestrator. \<open>processedMessageIds\<close> is a JavaScript \<open>Set\<close>, kept as the list of
  its members in insertion order; a channel object is kept as the membership of its id in
  \<open>activeChannels\<close>; \<open>metricsDispatched\<close> lists the metrics computations that were started
  and not awaited.
\<close>

record Orchestrator =
  orchestratorId :: string
  processedMessageIds :: "string list"
  activeChannels :: "string option set"
  channelToCharacterMap :: "string \<rightharpoonup> string"
  characterService :: Service
  interactions :: "store_call list"
  metricsDispatched :: "(string option \<times> string) list"
  sent :: "Outgoing list"

definition addProcessed :: "string \<Rightarrow> string list \<Rightarrow> string list" where
  "addProcessed x ids = (if x \<in> set ids then ids else ids @ [x])"

definition keepRecent :: "string list \<Rightarrow> string list" where
  "keepRecent ids = (if length ids > 1000 then drop (length ids - 1000) ids else ids)"

definition sendMessageAsCharacter ::
  "Env \<Rightarrow> string \<Rightarrow> string \<Rightarrow> string \<Rightarrow> Orchestrator \<Rightarrow> string result \<times> Orchestrator" where
  "sendMessageAsCharacter env channelId cid text s =
     (case getCharacter env cid (characterService s) of
        (Inl e, svc1) \<Rightarrow> (Inl e, s\<lparr>characterService := svc1\<rparr>)
      | (Inr character, svc1) \<Rightarrow>
          (let s1 = s\<lparr>characterService := svc1\<rparr>
           in if \<not> send_ok env then (Inl TransportFailure, s1)
              else (Inr (reply_id env),
                    s1\<lparr> sent := sent s1 @
                          [\<lparr> out_channel = channelId, out_text = text, out_user_id = cid,
                             out_character_name = Some (cfg_name character) \<rparr>],
                        processedMessageIds :=
                          addProcessed (reply_id env) (processedMessageIds s1) \<rparr>)))"

definition errorNotice :: "string \<Rightarrow> string" where
  "errorNotice characterName =
     ''I'' @ apostrophe @ ''m so'' @ ''rry, '' @ characterName
       @ '' is experiencing some technical difficulties. Please try again in a moment.''"

text \<open>\<open>sendErrorMessage\<close> catches every failure of its own and returns \<open>null\<close> then.\<close>

definition sendErrorMessage ::
  "Env \<Rightarrow> string \<Rightarrow> string \<Rightarrow> Orchestrator \<Rightarrow> string option \<times> Orchestrator" where
  "sendErrorMessage env channelId cid s =
     (let (found, svc1) = getCharacter env cid (characterService s);
          characterName = (case found of Inl e \<Rightarrow> ''Character'' | Inr character \<Rightarrow> cfg_name character);
          s1 = s\<lparr>characterService := svc1\<rparr>
      in if \<not> notice_ok env then (None, s1)
         else (Some (notice_id env),
               s1\<lparr> sent := sent s1 @
                     [\<lparr> out_channel = channelId, out_text = errorNotice characterName,
                        out_user_id = orchestratorId s1, out_character_name = None \<rparr>],
                   processedMessageIds :=
                     addProcessed (notice_id env) (processedMessageIds s1) \<rparr>))"

definition storeInteraction :: "Env \<Rightarrow> Orchestrator \<Rightarrow> bool \<times> Orchestrator" where
  "storeInteraction env s =
     (let s1 = s\<lparr>interactions := interactions s @ [StoreAdd ''interactions'']\<rparr>
      in (add_ok env, s1))"

definition is_blank :: "string option \<Rightarrow> bool" where
  "is_blank t = (case t of None \<Rightarrow> True | Some cs \<Rightarrow> list_all is_js_space cs)"

definition processCharacterMessage_try ::
  "Env \<Rightarrow> Message \<Rightarrow> string option \<Rightarrow> string \<Rightarrow> string \<Rightarrow> Orchestrator
     \<Rightarrow> unit result \<times> Orchestrator" where
  "processCharacterMessage_try env message uid channelId cid s =
     (if is_blank (msg_text message) then (Inr (), s)
      else (case getCharacter env cid (characterService s) of
              (Inl e, svc1) \<Rightarrow> (Inl e, s\<lparr>characterService := svc1\<rparr>)
            | (Inr character, svc1) \<Rightarrow>
                (let messageText = render (msg_text message);
                     s1 = s\<lparr> characterService := svc1,
                             metricsDispatched := metricsDispatched s @ [(uid, messageText)] \<rparr>
                 in (case sendMessageToCharacter env cid messageText uid (Some channelId)
                            (characterService s1) of
                       (Inl e, svc2) \<Rightarrow> (Inl e, s1\<lparr>characterService := svc2\<rparr>)
                     | (Inr response, svc2) \<Rightarrow>
                         (case sendMessageAsCharacter env channelId cid response
                                (s1\<lparr>characterService := svc2\<rparr>) of
                            (Inl e, s3) \<Rightarrow> (Inl e, s3)
                          | (Inr sentId, s3) \<Rightarrow>
                              (let s4 = snd (storeInteraction env s3)
                               in if \<not> callback_ok env then (Inl CallbackFailure, s4)
                                  else (Inr (), s4)))))))"

text \<open>The \<open>catch\<close> of \<open>processCharacterMessage\<close> sends the fallback notice.\<close>

definition processCharacterMessage ::
  "Env \<Rightarrow> Message \<Rightarrow> string option \<Rightarrow> string \<Rightarrow> string \<Rightarrow> Orchestrator \<Rightarrow> Orchestrator" where
  "processCharacterMessage env message uid channelId cid s =
     (case processCharacterMessage_try env message uid channelId cid s of
        (Inl e, s1) \<Rightarrow> snd (sendErrorMessage env channelId cid s1)
      | (Inr u, s1) \<Rightarrow> s1)"

text \<open>\<open>event.channel?.id || event.cid.split(':')[1]\<close>.\<close>

definition eventChannelId :: "Event \<Rightarrow> string option result" where
  "eventChannelId event =
     (if truthy (ev_channel_id event) then Inr (ev_channel_id event)
      else (case ev_cid event of
              None \<Rightarrow> Inl TypeError
            | Some c \<Rightarrow>
                (let parts = js_split CHR '':'' c
                 in if length parts > 1 then Inr (Some (parts ! 1)) else Inr None)))"

definition handleIncomingMessage_try ::
  "Env \<Rightarrow> Event \<Rightarrow> Orchestrator \<Rightarrow> unit result \<times> Orchestrator" where
  "handleIncomingMessage_try env event s =
     (case ev_message event of
        None \<Rightarrow> (Inr (), s)
      | Some message \<Rightarrow>
          if msg_id message \<in> set (processedMessageIds s)
             \<or> msg_user_id message = orchestratorId s
          then (Inr (), s)
          else (let s1 = s\<lparr>processedMessageIds :=
                            keepRecent (addProcessed (msg_id message) (processedMessageIds s))\<rparr>
                in (case eventChannelId event of
                      Inl e \<Rightarrow> (Inl e, s1)
                    | Inr channelId \<Rightarrow>
                        if channelId \<notin> activeChannels s1 \<and> \<not> watch_ok env then (Inr (), s1)
                        else (let s2 = s1\<lparr>activeChannels := insert channelId (activeChannels s1)\<rparr>
                              in (case channelId of
                                    None \<Rightarrow> (Inl TypeError, s2)
                                  | Some ch \<Rightarrow>
                                      (let parsed = parseChannelId ch
                                       in (case p_characterId parsed of
                                             None \<Rightarrow> (Inr (), s2)
                                           | Some cid \<Rightarrow>
                                               if cid = [] then (Inr (), s2)
                                               else (let s3 =
                                                       (if channelToCharacterMap s2 ch = None
                                                        then s2\<lparr>channelToCharacterMap :=
                                                                  (channelToCharacterMap s2)(ch \<mapsto> cid)\<rparr>
                                                        else s2)
                                                     in (Inr (),
                                                         processCharacterMessage env message
                                                           (p_userId parsed) ch cid s3)))))))))"

text \<open>The \<open>catch\<close> of \<open>handleIncomingMessage\<close> prints the error; the handler returns nothing.\<close>

definition handleIncomingMessage :: "Env \<Rightarrow> Event \<Rightarrow> Orchestrator \<Rightarrow> Orchestrator" where
  "handleIncomingMessage env event s = snd (handleIncomingMessage_try env event s)"

section \<open>Sequences of operations\<close>

text \<open>
  The operations of the state store and of the session service, each with the environment
  it runs in, and what a sequence of them makes of a service and its state store.
\<close>

datatype operation =
    InitializeCharacter string InitialState
  | UpdateGroup string "string option"
  | MarkGreetingCompleted string
  | MarkIdentityEstablished string
  | LogInteraction string Interaction
  | GetEnhancedSystemInstructions string string
  | GetCharacter string
  | UpdateCharacterGroup string "string option"
  | InitializeCharacterSession string bool
  | SendMessageToCharacter string string "string option" "string option"

fun perform :: "Env \<Rightarrow> operation \<Rightarrow> Service \<Rightarrow> Service" where
  "perform env (InitializeCharacter cid seed) svc =
     svc\<lparr>stateManager := snd (initializeCharacter env cid seed (stateManager svc))\<rparr>"
| "perform env (UpdateGroup cid g) svc =
     svc\<lparr>stateManager := snd (updateGroup env cid g (stateManager svc))\<rparr>"
| "perform env (MarkGreetingCompleted cid) svc =
     svc\<lparr>stateManager := snd (markGreetingCompleted env cid (stateManager svc))\<rparr>"
| "perform env (MarkIdentityEstablished cid) svc =
     svc\<lparr>stateManager := snd (markIdentityEstablished env cid (stateManager svc))\<rparr>"
| "perform env (LogInteraction cid i) svc =
     svc\<lparr>stateManager := snd (logInteraction env cid i (stateManager svc))\<rparr>"
| "perform env (GetEnhancedSystemInstructions cid base) svc =
     svc\<lparr>stateManager := snd (getEnhancedSystemInstructions env cid base (stateManager svc))\<rparr>"
| "perform env (GetCharacter cid) svc = snd (getCharacter env cid svc)"
| "perform env (UpdateCharacterGroup cid g) svc = snd (updateCharacterGroup env cid g svc)"
| "perform env (InitializeCharacterSession cid force) svc =
     snd (initializeCharacterSession env cid force svc)"
| "perform env (SendMessageToCharacter cid text uid ch) svc =
     snd (sendMessageToCharacter env cid text uid ch svc)"

fun run :: "(Env \<times> operation) list \<Rightarrow> Service \<Rightarrow> Service" where
  "run [] svc = svc"
| "run ((env, operation) # rest) svc = run rest (perform env operation svc)"

text \<open>The cached state of a character has \<open>greetingCompleted\<close> set.\<close>

definition greeted :: "string \<Rightarrow> Manager \<Rightarrow> bool" where
  "greeted c m = (case stateCache m c of None \<Rightarrow> False | Some st \<Rightarrow> greetingCompleted st)"

section \<open>Fixtures\<close>

text \<open>Concrete states, environments and inputs at which the theorems below are evaluated.\<close>

definition env0 :: Env where
  "env0 = \<lparr> now = 1700000000000, read_ok = True, write_ok = True, add_ok = True,
            state_docs = Map.empty,
            character_docs = [''c1'' \<mapsto> \<lparr>cfg_name = ''Ada'', cfg_greeting = None,
                                cfg_systemInstructions = ''You are Ada.'', cfg_group = None\<rparr>],
            metrics_docs = Map.empty,
            connect_ok = True, backend_turn = Completed [''Hi '', ''there''],
            greeting_write_last = True,
            watch_ok = True, send_ok = True, reply_id = ''r1'',
            notice_ok = True, notice_id = ''n1'', callback_ok = True \<rparr>"

definition env_add_fails :: Env where
  "env_add_fails = env0\<lparr>add_ok := False\<rparr>"

definition env_silent :: Env where
  "env_silent = env0\<lparr>backend_turn := Silent []\<rparr>"

definition env_race :: Env where
  "env_race = env0\<lparr>greeting_write_last := False\<rparr>"

definition m0 :: Manager where
  "m0 = \<lparr>stateCache = Map.empty, conversationFlags = Map.empty, firestore = []\<rparr>"

definition seed5 :: InitialState where
  "seed5 = emptyInitialState\<lparr>seed_greetingCompleted := Some True, seed_interactionCount := Some 5\<rparr>"

definition st_known :: CharacterState where
  "st_known = (defaultState 1600000000000 emptyInitialState)
                \<lparr>group := Some ''alpha'', greetingCompleted := True,
                 identityEstablished := True, interactionCount := 4\<rparr>"

definition m_known :: Manager where
  "m_known = \<lparr>stateCache = [''c1'' \<mapsto> st_known], conversationFlags = Map.empty, firestore = []\<rparr>"

definition hello :: Interaction where
  "hello = \<lparr>int_type = ''message'', int_message = ''Hello'',
            int_userId = Some ''u1'', int_channelId = Some ''u1_c1_1700000000000''\<rparr>"

definition svc0 :: Service where
  "svc0 = \<lparr>stateManager = m0, characterClients = Map.empty, characters = [], backend = []\<rparr>"

text \<open>A service whose state store has just created the default state of \<open>c1\<close>.\<close>

definition svc_fresh :: Service where
  "svc_fresh = perform env0 (InitializeCharacter ''c1'' emptyInitialState) svc0"

definition svc_known :: Service where
  "svc_known = svc0\<lparr>stateManager := m_known\<rparr>"

text \<open>The orchestrator \<open>chaos_theory\<close> over that service, and five events.\<close>

definition orch0 :: Orchestrator where
  "orch0 = \<lparr> orchestratorId = ''chaos_theory'', processedMessageIds = [],
              activeChannels = {}, channelToCharacterMap = Map.empty,
              characterService = svc_fresh, interactions = [], metricsDispatched = [],
              sent = [] \<rparr>"

definition msg_hello :: Message where
  "msg_hello = \<lparr>msg_id = ''m1'', msg_user_id = ''u1'', msg_text = Some ''Hello''\<rparr>"

definition ev_hello :: Event where
  "ev_hello = \<lparr> ev_message = Some msg_hello,
                ev_channel_id = Some ''u1_c1_1700000000000'',
                ev_cid = Some ''messaging:u1_c1_1700000000000'' \<rparr>"

definition msg_own :: Message where
  "msg_own = \<lparr>msg_id = ''m2'', msg_user_id = ''chaos_theory'', msg_text = Some ''Hello''\<rparr>"

definition ev_own :: Event where
  "ev_own = \<lparr> ev_message = Some msg_own,
              ev_channel_id = Some ''u1_c1_1700000000000'',
              ev_cid = Some ''messaging:u1_c1_1700000000000'' \<rparr>"



definition ev_four :: Event where
  "ev_four = \<lparr> ev_message = Some msg_hello,
               ev_channel_id = Some ''u1_c1_1700000000000_x'',
               ev_cid = Some ''messaging:u1_c1_1700000000000_x'' \<rparr>"

definition ev_random :: Event where
  "ev_random = \<lparr> ev_message = Some msg_hello,
                 ev_channel_id = Some ''randomchannel'',
                 ev_cid = Some ''messaging:randomchannel'' \<rparr>"

text \<open>
  Activities: one with magnitudes far outside the range; two that score alpha 3, beta 7 and
  delta 7; a challenge of unbounded persistence, its opposite, and a conversation of depth
  16; a conversation with no magnitude at all.
\<close>

definition ms0 :: MetricsService where
  "ms0 = \<lparr>user_metrics = []\<rparr>"

definition act_huge :: Activity where
  "act_huge = \<lparr> act_type = ''conversation'', depth = Finite 1000000, reflection = Finite (- 50),
                 persistence = Finite 0, creativity = Finite 0, generosity = Finite 0 \<rparr>"

definition act_talk :: Activity where
  "act_talk = \<lparr> act_type = ''conversation'', depth = Finite 14, reflection = Finite 10,
                 persistence = Finite 0, creativity = Finite 0, generosity = Finite 0 \<rparr>"

definition act_challenge :: Activity where
  "act_challenge = \<lparr> act_type = ''challenge'', depth = Finite 0, reflection = Finite 0,
                      persistence = Finite (15 / 4), creativity = Finite 0,
                      generosity = Finite 0 \<rparr>"

definition act_up :: Activity where
  "act_up = \<lparr> act_type = ''challenge'', depth = Finite 0, reflection = Finite 0,
               persistence = PlusInfinity, creativity = Finite 0, generosity = Finite 0 \<rparr>"

definition act_down :: Activity where
  "act_down = \<lparr> act_type = ''challenge'', depth = Finite 0, reflection = Finite 0,
                 persistence = MinusInfinity, creativity = Finite 0, generosity = Finite 0 \<rparr>"

definition act_deep :: Activity where
  "act_deep = \<lparr> act_type = ''conversation'', depth = Finite 16, reflection = Finite 0,
                 persistence = Finite 0, creativity = Finite 0, generosity = Finite 0 \<rparr>"

definition act_bare :: Activity where
  "act_bare = \<lparr> act_type = ''conversation'', depth = NotANumber, reflection = NotANumber,
                 persistence = NotANumber, creativity = NotANumber, generosity = NotANumber \<rparr>"

section \<open>Properties of the state store\<close>

subsection \<open>Reading a state\<close>

lemma getCharacterState_hit:
  "stateCache m cid = Some st \<Longrightarrow> getCharacterState env cid m = (Some st, m)"
  by (simp add: getCharacterState_def getCharacterState_try_def)

lemma getCharacterState_cases:
  obtains (hit) st where "stateCache m cid = Some st" "getCharacterState env cid m = (Some st, m)"
  | (miss) "stateCache m cid = None"
      "getCharacterState env cid m =
         (None, m\<lparr>firestore := firestore m @ [StoreGet ''character_states'' cid]\<rparr>)"
  | (load) st where "stateCache m cid = None"
      "getCharacterState env cid m =
         (Some st, m\<lparr>firestore := firestore m @ [StoreGet ''character_states'' cid],
                     stateCache := (stateCache m)(cid \<mapsto> st)\<rparr>)"
  by (cases "stateCache m cid"; cases "read_ok env"; cases "state_docs env cid")
     (auto simp: getCharacterState_def getCharacterState_try_def Let_def)

lemma getCharacterState_Some:
  assumes "fst (getCharacterState env cid m) = Some st"
  shows "stateCache (snd (getCharacterState env cid m)) cid = Some st"
    and "conversationFlags (snd (getCharacterState env cid m)) = conversationFlags m"
  using assms
  by (cases env cid m rule: getCharacterState_cases; simp)+

lemma getCharacterState_pair:
  assumes "fst (getCharacterState env cid m) = Some st"
  obtains m1 where "getCharacterState env cid m = (Some st, m1)" "stateCache m1 cid = Some st"
    "conversationFlags m1 = conversationFlags m"
  using assms getCharacterState_Some[OF assms]
  by (cases "getCharacterState env cid m") auto

subsection \<open>Initialization\<close>

lemma initializeCharacter_fresh:
  assumes "getCharacterState env cid m = (None, m1)" and "write_ok env"
  shows "initializeCharacter env cid seed m =
           (Inr (defaultState (now env) seed),
            m1\<lparr>firestore := firestore m1 @ [StoreSet ''character_states'' cid],
               stateCache := (stateCache m1)(cid \<mapsto> defaultState (now env) seed)\<rparr>)"
  using assms by (simp add: initializeCharacter_def Let_def)

lemma defaultState_fields:
  "group (defaultState t i) = (case seed_group i of None \<Rightarrow> None | Some g \<Rightarrow> g)"
  "name (defaultState t i) = (case seed_name i of None \<Rightarrow> ''Character'' | Some n \<Rightarrow> n)"
  "traits (defaultState t i) = (case seed_traits i of None \<Rightarrow> [] | Some ts \<Rightarrow> ts)"
  "greetingCompleted (defaultState t i) =
     (case seed_greetingCompleted i of None \<Rightarrow> False | Some b \<Rightarrow> b)"
  "identityEstablished (defaultState t i) =
     (case seed_identityEstablished i of None \<Rightarrow> False | Some b \<Rightarrow> b)"
  "interactionCount (defaultState t i) =
     (case seed_interactionCount i of None \<Rightarrow> 0 | Some n \<Rightarrow> n)"
  "lastInteraction (defaultState t i) =
     (case seed_lastInteraction i of None \<Rightarrow> t | Some u \<Rightarrow> u)"
  "created (defaultState t i) = (case seed_created i of None \<Rightarrow> t | Some u \<Rightarrow> u)"
  "systemInstructions (defaultState t i) = seed_systemInstructions i"
  "lastGroupChange (defaultState t i) = seed_lastGroupChange i"
  "contextReset (defaultState t i) = seed_contextReset i"
  "lastUpdated (defaultState t i) = seed_lastUpdated i"
  by (simp_all add: defaultState_def spreadInitialState_def defaultFields_def
      split: option.split)

text \<open>
  Claim C10. When \<open>initializeCharacter\<close> finds no state for the character and its write
  succeeds, the state it returns and caches is the default object overridden key by key by
  the seed: every field the seed has is taken from the seed, every other field has its
  default (\<open>group\<close> null, \<open>greetingCompleted\<close> and \<open>identityEstablished\<close> false,
  \<open>interactionCount\<close> 0, the two time stamps \<open>Date.now()\<close>).
\<close>

theorem initializeCharacter_seed_precedence:
  assumes "fst (getCharacterState env cid m) = None" and "write_ok env"
  shows "\<exists>st. fst (initializeCharacter env cid seed m) = Inr st
     \<and> stateCache (snd (initializeCharacter env cid seed m)) cid = Some st
     \<and> group st = (case seed_group seed of None \<Rightarrow> None | Some g \<Rightarrow> g)
     \<and> name st = (case seed_name seed of None \<Rightarrow> ''Character'' | Some n \<Rightarrow> n)
     \<and> traits st = (case seed_traits seed of None \<Rightarrow> [] | Some ts \<Rightarrow> ts)
     \<and> greetingCompleted st = (case seed_greetingCompleted seed of None \<Rightarrow> False | Some b \<Rightarrow> b)
     \<and> identityEstablished st =
         (case seed_identityEstablished seed of None \<Rightarrow> False | Some b \<Rightarrow> b)
     \<and> interactionCount st = (case seed_interactionCount seed of None \<Rightarrow> 0 | Some n \<Rightarrow> n)
     \<and> lastInteraction st = (case seed_lastInteraction seed of None \<Rightarrow> now env | Some t \<Rightarrow> t)
     \<and> created st = (case seed_created seed of None \<Rightarrow> now env | Some t \<Rightarrow> t)
     \<and> systemInstructions st = seed_systemInstructions seed
     \<and> lastGroupChange st = seed_lastGroupChange seed
     \<and> contextReset st = seed_contextReset seed
     \<and> lastUpdated st = seed_lastUpdated seed"
proof -
  obtain m1 where g: "getCharacterState env cid m = (None, m1)"
    using assms(1) by (cases "getCharacterState env cid m") auto
  note f = initializeCharacter_fresh[OF g assms(2), of seed]
  show ?thesis
    unfolding f by (intro exI[of _ "defaultState (now env) seed"]) (simp add: defaultState_fields)
qed

text \<open>
  At a seed with \<open>greetingCompleted: true\<close> and \<open>interactionCount: 5\<close> the fresh state has
  these two values and the defaults elsewhere.
\<close>

theorem initializeCharacter_seed_precedence_witness:
  "fst (getCharacterState env0 ''c1'' m0) = None \<and> write_ok env0
   \<and> (\<exists>st. fst (initializeCharacter env0 ''c1'' seed5 m0) = Inr st
         \<and> greetingCompleted st \<and> interactionCount st = 5 \<and> \<not> identityEstablished st
         \<and> name st = ''Character'')"
proof -
  have h1: "fst (getCharacterState env0 ''c1'' m0) = None"
    by (simp add: getCharacterState_def getCharacterState_try_def m0_def env0_def)
  have h2: "write_ok env0" by (simp add: env0_def)
  from initializeCharacter_seed_precedence[OF h1 h2, of seed5]
  show ?thesis using h1 h2 by (auto simp: seed5_def emptyInitialState_def)
qed

subsection \<open>Group change and the reset clause\<close>

lemma getConversationFlag_set:
  "getConversationFlag cid f (setConversationFlag cid f v m) = Some v"
  by (simp add: getConversationFlag_def setConversationFlag_def Let_def)

lemma getConversationFlag_clear:
  "getConversationFlag cid f (clearConversationFlag cid f m) = None"
  by (simp add: getConversationFlag_def clearConversationFlag_def split: option.splits)

lemma stateCache_setConversationFlag [simp]:
  "stateCache (setConversationFlag cid f v m) = stateCache m"
  by (simp add: setConversationFlag_def Let_def)

lemma stateCache_clearConversationFlag [simp]:
  "stateCache (clearConversationFlag cid f m) = stateCache m"
  by (simp add: clearConversationFlag_def split: option.splits)

lemma updateGroup_change:
  assumes g: "getCharacterState env cid m = (Some st, m1)"
    and ch: "group st \<noteq> g" and w: "write_ok env"
  shows "updateGroup env cid g m =
      (Inr (st\<lparr>group := g, lastGroupChange := Some (now env), identityEstablished := False,
              contextReset := Some (now env), lastUpdated := Some (now env)\<rparr>),
       setConversationFlag cid ''resetRequired'' True
         (m1\<lparr>firestore := firestore m1 @ [StoreMerge ''character_states'' cid],
             stateCache := (stateCache m1)(cid \<mapsto>
               st\<lparr>group := g, lastGroupChange := Some (now env), identityEstablished := False,
                  contextReset := Some (now env), lastUpdated := Some (now env)\<rparr>)\<rparr>))"
  using ch w by (simp add: updateGroup_def g Let_def)

lemma getEnhancedSystemInstructions_hit:
  assumes "stateCache m cid = Some st"
  shows "getEnhancedSystemInstructions env cid base m =
     (let e3 = base @ (if truthy (group st) then groupClause (group st) else [])
                 @ (if identityEstablished st then identityClause else [])
                 @ (if greetingCompleted st then [] else greetingClause)
      in if getConversationFlag cid ''resetRequired'' m = Some True
         then (e3 @ resetClause (group st), clearConversationFlag cid ''resetRequired'' m)
         else (e3, m))"
  by (simp add: getEnhancedSystemInstructions_def getCharacterState_hit[OF assms] Let_def)

text \<open>
  Claim C2. For a character whose state exists with \<open>identityEstablished\<close> true,
  \<open>updateGroup\<close> with a group other than the current one (its write succeeding) returns and
  caches a state with the new group, \<open>identityEstablished\<close> false, \<open>lastGroupChange\<close> and
  \<open>contextReset\<close> stamped, and sets the flag \<open>resetRequired\<close>. The next
  \<open>getEnhancedSystemInstructions\<close> returns the base text, the clauses of the state and then
  the reset clause (``CRITICAL: You have just become a member of the ...''), once, and
  clears the flag; the call after it returns the same text without the reset clause, so
  the two texts differ.
\<close>

theorem updateGroup_arms_reset_once:
  assumes "fst (getCharacterState env cid m) = Some st"
    and "identityEstablished st" and "group st \<noteq> g" and "write_ok env"
  shows "\<exists>st' m'. updateGroup env cid g m = (Inr st', m')
     \<and> stateCache m' cid = Some st'
     \<and> group st' = g \<and> \<not> identityEstablished st'
     \<and> lastGroupChange st' = Some (now env) \<and> contextReset st' = Some (now env)
     \<and> lastUpdated st' = Some (now env)
     \<and> greetingCompleted st' = greetingCompleted st
     \<and> getConversationFlag cid ''resetRequired'' m' = Some True
     \<and> (\<forall>env1 env2 base.
           fst (getEnhancedSystemInstructions env1 cid base m') =
             base @ (if truthy g
                     then [CHR 0x0A, CHR 0x0A] @ ''IMPORTANT: You are a member of the '' @ (case g of None \<Rightarrow> ''null'' | Some s \<Rightarrow> s)
                      @ ''. This is a permanent part of your identity.''
                     else [])
                  @ (if greetingCompleted st then []
                     else [CHR 0x0A, CHR 0x0A] @ ''IMPORTANT: This is your first interaction with this user. Start with a warm greeting that introduces yourself and establishes your character.'')
                  @ [CHR 0x0A, CHR 0x0A] @ ''CRITICAL: You have just become a member of the '' @ (case g of None \<Rightarrow> ''null'' | Some s \<Rightarrow> s)
                  @ ''. This is now a permanent part of your identity. Do not reference any previous group affiliations.''
         \<and> getConversationFlag cid ''resetRequired''
              (snd (getEnhancedSystemInstructions env1 cid base m')) = None
         \<and> fst (getEnhancedSystemInstructions env2 cid base
                  (snd (getEnhancedSystemInstructions env1 cid base m'))) =
             base @ (if truthy g
                     then [CHR 0x0A, CHR 0x0A] @ ''IMPORTANT: You are a member of the '' @ (case g of None \<Rightarrow> ''null'' | Some s \<Rightarrow> s)
                      @ ''. This is a permanent part of your identity.''
                     else [])
                  @ (if greetingCompleted st then []
                     else [CHR 0x0A, CHR 0x0A] @ ''IMPORTANT: This is your first interaction with this user. Start with a warm greeting that introduces yourself and establishes your character.'')
         \<and> fst (getEnhancedSystemInstructions env1 cid base m') \<noteq>
             fst (getEnhancedSystemInstructions env2 cid base
                    (snd (getEnhancedSystemInstructions env1 cid base m'))))"
proof -
  from assms(1) obtain m1 where g: "getCharacterState env cid m = (Some st, m1)"
    by (rule getCharacterState_pair)
  define st' where "st' = st\<lparr>group := g, lastGroupChange := Some (now env),
     identityEstablished := False, contextReset := Some (now env), lastUpdated := Some (now env)\<rparr>"
  define m' where "m' = setConversationFlag cid ''resetRequired'' True
         (m1\<lparr>firestore := firestore m1 @ [StoreMerge ''character_states'' cid],
             stateCache := (stateCache m1)(cid \<mapsto> st')\<rparr>)"
  have u: "updateGroup env cid g m = (Inr st', m')"
    unfolding st'_def m'_def by (rule updateGroup_change[OF g assms(3,4)])
  have c: "stateCache m' cid = Some st'" by (simp add: m'_def)
  have f: "getConversationFlag cid ''resetRequired'' m' = Some True"
    unfolding m'_def by (rule getConversationFlag_set)
  have fields: "group st' = g" "\<not> identityEstablished st'"
    "lastGroupChange st' = Some (now env)" "contextReset st' = Some (now env)"
    "lastUpdated st' = Some (now env)" "greetingCompleted st' = greetingCompleted st"
    by (simp_all add: st'_def)
  have first: "getEnhancedSystemInstructions env1 cid base m' =
      (base @ (if truthy g then groupClause g else [])
            @ (if greetingCompleted st then [] else greetingClause) @ resetClause g,
       clearConversationFlag cid ''resetRequired'' m')" for env1 base
    by (simp add: getEnhancedSystemInstructions_hit[OF c] f fields Let_def)
  have c2: "stateCache (clearConversationFlag cid ''resetRequired'' m') cid = Some st'"
    by (simp add: c)
  have second: "getEnhancedSystemInstructions env2 cid base
        (clearConversationFlag cid ''resetRequired'' m') =
      (base @ (if truthy g then groupClause g else [])
            @ (if greetingCompleted st then [] else greetingClause),
       clearConversationFlag cid ''resetRequired'' m')" for env2 base
    by (simp add: getEnhancedSystemInstructions_hit[OF c2] getConversationFlag_clear fields Let_def)
  have wording:
    "groupClause g = [CHR 0x0A, CHR 0x0A] @ ''IMPORTANT: You are a member of the '' @ (case g of None \<Rightarrow> ''null'' | Some s \<Rightarrow> s)
                      @ ''. This is a permanent part of your identity.''"
    "greetingClause = [CHR 0x0A, CHR 0x0A] @ ''IMPORTANT: This is your first interaction with this user. Start with a warm greeting that introduces yourself and establishes your character.''"
    "resetClause g = [CHR 0x0A, CHR 0x0A] @ ''CRITICAL: You have just become a member of the '' @ (case g of None \<Rightarrow> ''null'' | Some s \<Rightarrow> s)
                  @ ''. This is now a permanent part of your identity. Do not reference any previous group affiliations.''"
    by (simp_all add: groupClause_def greetingClause_def resetClause_def render_def
        paragraph_break_def)
  have differ: "base @ (if truthy g then groupClause g else [])
            @ (if greetingCompleted st then [] else greetingClause) @ resetClause g \<noteq>
         base @ (if truthy g then groupClause g else [])
            @ (if greetingCompleted st then [] else greetingClause)" for base
    by (simp add: resetClause_def paragraph_break_def)
  show ?thesis
    apply (rule exI[of _ st'], rule exI[of _ m'])
    apply (simp only: u c f fields first second fst_conv snd_conv getConversationFlag_clear
        differ)
    apply (simp only: wording)
    apply simp
    done
qed

text \<open>A character of group alpha, greeted and introduced, is moved to group beta.\<close>

theorem updateGroup_arms_reset_once_witness:
  "fst (getCharacterState env0 ''c1'' m_known) = Some st_known
   \<and> identityEstablished st_known \<and> group st_known \<noteq> Some ''beta'' \<and> write_ok env0
   \<and> (\<exists>st' m'. updateGroup env0 ''c1'' (Some ''beta'') m_known = (Inr st', m')
         \<and> \<not> identityEstablished st'
         \<and> fst (getEnhancedSystemInstructions env0 ''c1'' ''You are Ada.'' m') =
             ''You are Ada.''
               @ [CHR 0x0A, CHR 0x0A]
               @ ''IMPORTANT: You are a member of the beta. This is a permanent part of your identity.''
               @ [CHR 0x0A, CHR 0x0A]
               @ ''CRITICAL: You have just become a member of the beta. This is now a permanent part of your identity. Do not reference any previous group affiliations.''
         \<and> fst (getEnhancedSystemInstructions env0 ''c1'' ''You are Ada.''
                  (snd (getEnhancedSystemInstructions env0 ''c1'' ''You are Ada.'' m'))) =
             ''You are Ada.''
               @ [CHR 0x0A, CHR 0x0A]
               @ ''IMPORTANT: You are a member of the beta. This is a permanent part of your identity.'')"
proof -
  have h1: "fst (getCharacterState env0 ''c1'' m_known) = Some st_known"
    by (simp add: getCharacterState_def getCharacterState_try_def m_known_def)
  have h2: "identityEstablished st_known" by (simp add: st_known_def)
  have h3: "group st_known \<noteq> Some ''beta''" by (simp add: st_known_def)
  have h4: "write_ok env0" by (simp add: env0_def)
  have h5: "greetingCompleted st_known" by (simp add: st_known_def)
  from updateGroup_arms_reset_once[OF h1 h2 h3 h4]
  obtain st' m' where r: "updateGroup env0 ''c1'' (Some ''beta'') m_known = (Inr st', m')"
     "\<not> identityEstablished st'"
     "\<And>env1 base.
           fst (getEnhancedSystemInstructions env1 ''c1'' base m') =
             base @ (if truthy (Some ''beta'')
                     then [CHR 0x0A, CHR 0x0A] @ ''IMPORTANT: You are a member of the '' @ (case Some ''beta'' of None \<Rightarrow> ''null'' | Some s \<Rightarrow> s)
                      @ ''. This is a permanent part of your identity.''
                     else [])
                  @ (if greetingCompleted st_known then []
                     else [CHR 0x0A, CHR 0x0A] @ ''IMPORTANT: This is your first interaction with this user. Start with a warm greeting that introduces yourself and establishes your character.'')
                  @ [CHR 0x0A, CHR 0x0A] @ ''CRITICAL: You have just become a member of the '' @ (case Some ''beta'' of None \<Rightarrow> ''null'' | Some s \<Rightarrow> s)
                  @ ''. This is now a permanent part of your identity. Do not reference any previous group affiliations.''"
     "\<And>env1 env2 base.
           fst (getEnhancedSystemInstructions env2 ''c1'' base
                  (snd (getEnhancedSystemInstructions env1 ''c1'' base m'))) =
             base @ (if truthy (Some ''beta'')
                     then [CHR 0x0A, CHR 0x0A] @ ''IMPORTANT: You are a member of the '' @ (case Some ''beta'' of None \<Rightarrow> ''null'' | Some s \<Rightarrow> s)
                      @ ''. This is a permanent part of your identity.''
                     else [])
                  @ (if greetingCompleted st_known then []
                     else [CHR 0x0A, CHR 0x0A] @ ''IMPORTANT: This is your first interaction with this user. Start with a warm greeting that introduces yourself and establishes your character.'')"
    by blast
  have t: "truthy (Some ''beta'')" by (simp add: truthy_def)
  show ?thesis
    using h1 h2 h3 h4 r(1,2) r(3)[of env0 "''You are Ada.''"]
      r(4)[of env0 "''You are Ada.''" env0]
    by (simp add: t h5)
qed

subsection \<open>Recording an interaction\<close>

lemma logInteraction_never_throws:
  "fst (logInteraction env cid i m) = Inr ()"
  by (simp add: logInteraction_def split: prod.splits sum.splits)

lemma logInteraction_try_append_failure:
  assumes g: "getCharacterState env cid m = (Some st, m1)" and a: "\<not> add_ok env"
  shows "logInteraction_try env cid i m =
           (Inl StoreFailure, m1\<lparr>firestore := firestore m1 @ [StoreAdd ''character_interactions'']\<rparr>)"
  using a by (simp add: logInteraction_try_def g Let_def)

lemma logInteraction_try_success:
  assumes g: "getCharacterState env cid m = (Some st, m1)" and a: "add_ok env" "write_ok env"
  shows "logInteraction_try env cid i m =
           (Inr (), m1\<lparr>firestore := firestore m1 @ [StoreAdd ''character_interactions'',
                                                      StoreUpdate ''character_states'' cid],
                       stateCache := (stateCache m1)(cid \<mapsto>
                          st\<lparr>interactionCount := interactionCount st + 1,
                             lastInteraction := now env, lastUpdated := Some (now env)\<rparr>)\<rparr>)"
  using a by (simp add: logInteraction_try_def g Let_def)

text \<open>
  Claim C9, as amended. In \<open>logInteraction\<close> the counter update comes after the log append
  and only when the append has succeeded. When the append fails, no write of the counters
  is issued and the cached state is the one that was read: \<open>interactionCount\<close>,
  \<open>lastInteraction\<close> and \<open>lastUpdated\<close> are unchanged. When the append and the write both
  succeed, \<open>interactionCount\<close> is one more and both time stamps are \<open>Date.now()\<close>.
\<close>

theorem logInteraction_update_follows_append:
  assumes "fst (getCharacterState env cid m) = Some st"
  shows "(\<not> add_ok env \<longrightarrow>
            stateCache (snd (logInteraction env cid i m)) cid = Some st
          \<and> firestore (snd (logInteraction env cid i m)) =
              firestore (snd (getCharacterState env cid m)) @ [StoreAdd ''character_interactions''])
       \<and> (add_ok env \<and> write_ok env \<longrightarrow>
            stateCache (snd (logInteraction env cid i m)) cid =
              Some (st\<lparr>interactionCount := interactionCount st + 1,
                       lastInteraction := now env, lastUpdated := Some (now env)\<rparr>)
          \<and> firestore (snd (logInteraction env cid i m)) =
              firestore (snd (getCharacterState env cid m))
                @ [StoreAdd ''character_interactions'', StoreUpdate ''character_states'' cid])"
proof -
  from assms obtain m1 where g: "getCharacterState env cid m = (Some st, m1)"
    and c: "stateCache m1 cid = Some st"
    by (rule getCharacterState_pair)
  show ?thesis
  proof (intro conjI impI)
    assume a: "\<not> add_ok env"
    show "stateCache (snd (logInteraction env cid i m)) cid = Some st"
      by (simp add: logInteraction_def logInteraction_try_append_failure[OF g a] c)
    show "firestore (snd (logInteraction env cid i m)) =
              firestore (snd (getCharacterState env cid m)) @ [StoreAdd ''character_interactions'']"
      by (simp add: logInteraction_def logInteraction_try_append_failure[OF g a] g)
  next
    assume a: "add_ok env \<and> write_ok env"
    then have ok: "add_ok env" "write_ok env" by simp_all
    show "stateCache (snd (logInteraction env cid i m)) cid =
              Some (st\<lparr>interactionCount := interactionCount st + 1,
                       lastInteraction := now env, lastUpdated := Some (now env)\<rparr>)"
      by (simp add: logInteraction_def logInteraction_try_success[OF g ok])
    show "firestore (snd (logInteraction env cid i m)) =
              firestore (snd (getCharacterState env cid m))
                @ [StoreAdd ''character_interactions'', StoreUpdate ''character_states'' cid]"
      by (simp add: logInteraction_def logInteraction_try_success[OF g ok] g)
  qed
qed

text \<open>A state with four interactions: a failed append leaves four, a successful one gives five.\<close>

theorem logInteraction_update_follows_append_witness:
  "fst (getCharacterState env_add_fails ''c1'' m_known) = Some st_known
   \<and> \<not> add_ok env_add_fails
   \<and> map_option interactionCount
       (stateCache (snd (logInteraction env_add_fails ''c1'' hello m_known)) ''c1'') = Some 4
   \<and> fst (getCharacterState env0 ''c1'' m_known) = Some st_known
   \<and> add_ok env0 \<and> write_ok env0
   \<and> map_option interactionCount
       (stateCache (snd (logInteraction env0 ''c1'' hello m_known)) ''c1'') = Some 5"
proof -
  have h1: "fst (getCharacterState e ''c1'' m_known) = Some st_known" for e
    by (simp add: getCharacterState_def getCharacterState_try_def m_known_def)
  have h2: "\<not> add_ok env_add_fails" by (simp add: env_add_fails_def)
  have h3: "add_ok env0 \<and> write_ok env0" by (simp add: env0_def)
  have c: "interactionCount st_known = 4" by (simp add: st_known_def)
  show ?thesis
    using h1 h2 h3 logInteraction_update_follows_append[OF h1, of env_add_fails hello]
      logInteraction_update_follows_append[OF h1, of env0 hello]
    by (simp add: c)
qed

text \<open>
  The claim as the specification states it fails. With the log append failing, the call
  returns normally, the only store call it has issued is the append, and the counter is
  still 4; for a character without a state the call returns normally as well.
\<close>

theorem logInteraction_failure_counterexample:
  "\<not> isl (fst (logInteraction env_add_fails ''c1'' hello m_known))
   \<and> StoreUpdate ''character_states'' ''c1''
        \<notin> set (firestore (snd (logInteraction env_add_fails ''c1'' hello m_known)))
   \<and> map_option interactionCount
       (stateCache (snd (logInteraction env_add_fails ''c1'' hello m_known)) ''c1'') = Some 4
   \<and> \<not> isl (fst (logInteraction env0 ''ghost'' hello m_known))"
  by (simp add: logInteraction_def logInteraction_try_def getCharacterState_def
      getCharacterState_try_def m_known_def env_add_fails_def env0_def st_known_def Let_def)

section \<open>Properties of the session service\<close>

subsection \<open>Looking a character up\<close>

lemma stateCache_getEnhancedSystemInstructions:
  "stateCache (snd (getEnhancedSystemInstructions env cid base m)) =
   stateCache (snd (getCharacterState env cid m))"
  by (cases env cid m rule: getCharacterState_cases)
     (simp_all add: getEnhancedSystemInstructions_def Let_def)

lemma getCharacterState_idem:
  "fst (getCharacterState env cid m) = Some st \<Longrightarrow>
   stateCache (snd (getCharacterState env cid (snd (getCharacterState env cid m)))) cid = Some st"
  by (cases env cid m rule: getCharacterState_cases) (simp_all add: getCharacterState_hit)

lemma getCharacter_cases:
  obtains (fail) e where
      "getCharacter env cid svc =
         (Inl e, svc\<lparr>characters := characters svc @ [StoreGet ''characters'' cid]\<rparr>)"
      "\<not> read_ok env \<or> character_docs env cid = None"
  | (cached) cfg client where
      "read_ok env" "character_docs env cid = Some cfg" "characterClients svc cid = Some client"
      "getCharacter env cid svc =
         (Inr cfg, svc\<lparr>characters := characters svc @ [StoreGet ''characters'' cid]\<rparr>)"
  | (created) cfg where
      "read_ok env" "character_docs env cid = Some cfg" "characterClients svc cid = None"
      "getCharacter env cid svc =
         (Inr cfg,
          svc\<lparr>characters := characters svc @ [StoreGet ''characters'' cid],
              stateManager :=
                snd (getEnhancedSystemInstructions env cid (cfg_systemInstructions cfg)
                       (snd (getCharacterState env cid (stateManager svc)))),
              characterClients := (characterClients svc)(cid \<mapsto>
                \<lparr>connected = False,
                 systemInstruction =
                   fst (getEnhancedSystemInstructions env cid (cfg_systemInstructions cfg)
                          (snd (getCharacterState env cid (stateManager svc)))),
                 turnListeners = 0\<rparr>)\<rparr>)"
  by (cases "characterClients svc cid"; cases "read_ok env"; cases "character_docs env cid")
     (auto simp: getCharacter_def Let_def split: prod.splits)

lemma backend_getCharacter [simp]:
  "backend (snd (getCharacter env cid svc)) = backend svc"
  by (cases rule: getCharacter_cases[where env=env and cid=cid and svc=svc]) simp_all

lemma getCharacter_found:
  assumes "read_ok env" "character_docs env cid = Some cfg"
    and "fst (getCharacterState env cid (stateManager svc)) = Some st"
  obtains svc1 client where
    "getCharacter env cid svc = (Inr cfg, svc1)"
    "fst (getCharacterState env cid (stateManager svc1)) = Some st"
    "characterClients svc1 cid = Some client"
    "characterClients svc cid = None \<Longrightarrow> turnListeners client = 0 \<and> \<not> connected client"
    "\<And>cl. characterClients svc cid = Some cl \<Longrightarrow> client = cl"
    "backend svc1 = backend svc"
proof (cases rule: getCharacter_cases[where env=env and cid=cid and svc=svc])
  case (fail e)
  then show ?thesis using assms by auto
next
  case (cached cfg' client)
  then show ?thesis using assms that by auto
next
  case (created cfg')
  have "stateCache (snd (getEnhancedSystemInstructions env cid (cfg_systemInstructions cfg')
                       (snd (getCharacterState env cid (stateManager svc))))) cid = Some st"
    by (simp add: stateCache_getEnhancedSystemInstructions getCharacterState_idem[OF assms(3)])
  then show ?thesis using assms created that
    by (auto simp: getCharacterState_hit)
qed


lemma establishIdentity_marks:
  assumes "stateCache m cid = Some st" "interactionCount st \<le> 2" "\<not> identityEstablished st"
    and "write_ok env"
  shows "establishIdentity env cid m =
     m\<lparr>firestore := firestore m @ [StoreUpdate ''character_states'' cid],
       stateCache := (stateCache m)(cid \<mapsto>
          st\<lparr>identityEstablished := True, lastUpdated := Some (now env)\<rparr>)\<rparr>"
  using assms
  by (simp add: establishIdentity_def markIdentityEstablished_def getCharacterState_hit Let_def)

lemma establishIdentity_skips:
  assumes "stateCache m cid = Some st" "\<not> (interactionCount st \<le> 2 \<and> \<not> identityEstablished st)"
  shows "establishIdentity env cid m = m"
  using assms by (auto simp add: establishIdentity_def getCharacterState_hit)

lemma funpow_fixed: "f x = x \<Longrightarrow> (f ^^ n) x = x"
  by (induction n) simp_all

lemma runTurnListeners_Suc:
  assumes c: "stateCache m cid = Some st" and w: "write_ok env"
  shows "stateCache (runTurnListeners env cid (Suc n) m) cid =
     Some (if interactionCount st \<le> 2 \<and> \<not> identityEstablished st
           then st\<lparr>identityEstablished := True, lastUpdated := Some (now env)\<rparr> else st)"
proof (cases "interactionCount st \<le> 2 \<and> \<not> identityEstablished st")
  case True
  define m' where "m' = establishIdentity env cid m"
  have m': "m' = m\<lparr>firestore := firestore m @ [StoreUpdate ''character_states'' cid],
       stateCache := (stateCache m)(cid \<mapsto>
          st\<lparr>identityEstablished := True, lastUpdated := Some (now env)\<rparr>)\<rparr>"
    unfolding m'_def using establishIdentity_marks[OF c _ _ w] True by simp
  have c': "stateCache m' cid = Some (st\<lparr>identityEstablished := True, lastUpdated := Some (now env)\<rparr>)"
    by (simp add: m')
  have "establishIdentity env cid m' = m'"
    by (rule establishIdentity_skips[OF c']) simp
  then have "(establishIdentity env cid ^^ n) m' = m'" by (rule funpow_fixed)
  then show ?thesis
    using True c' by (simp add: runTurnListeners_def funpow_swap1 m'_def)
next
  case False
  have "establishIdentity env cid m = m" by (rule establishIdentity_skips[OF c False])
  then have "(establishIdentity env cid ^^ Suc n) m = m" by (rule funpow_fixed)
  then show ?thesis using False c by (auto simp add: runTurnListeners_def simp del: funpow.simps)
qed

lemma sendMessageToCharacter_completed:
  assumes r: "read_ok env" "character_docs env cid = Some cfg"
    and s: "fst (getCharacterState env cid (stateManager svc)) = Some st"
    and ok: "add_ok env" "write_ok env" "connect_ok env"
    and t: "backend_turn env = Completed chunks"
  shows "\<exists>svc' st'. sendMessageToCharacter env cid text uid ch svc = (Inr (concat chunks), svc')
      \<and> stateCache (stateManager svc') cid = Some st'
      \<and> interactionCount st' = interactionCount st + 1
      \<and> identityEstablished st' = (identityEstablished st \<or> interactionCount st + 1 \<le> 2)
      \<and> greetingCompleted st' = greetingCompleted st \<and> group st' = group st"
proof -
  from getCharacter_found[OF r s] obtain svc1 client where
    g: "getCharacter env cid svc = (Inr cfg, svc1)"
    and s1: "fst (getCharacterState env cid (stateManager svc1)) = Some st"
    and cl: "characterClients svc1 cid = Some client"
    by metis
  from s1 obtain m1 where gs: "getCharacterState env cid (stateManager svc1) = (Some st, m1)"
    and c1: "stateCache m1 cid = Some st"
    by (rule getCharacterState_pair)
  define i where "i = \<lparr> int_type = ''message'', int_message = text,
                             int_userId = uid, int_channelId = ch \<rparr>"
  define st1 where "st1 = st\<lparr>interactionCount := interactionCount st + 1,
                             lastInteraction := now env, lastUpdated := Some (now env)\<rparr>"
  define mL where "mL = m1\<lparr>firestore := firestore m1 @ [StoreAdd ''character_interactions'',
                                                      StoreUpdate ''character_states'' cid],
                       stateCache := (stateCache m1)(cid \<mapsto> st1)\<rparr>"
  have l: "logInteraction env cid i (stateManager svc1) = (Inr (), mL)"
    by (simp add: logInteraction_def logInteraction_try_success[OF gs ok(1,2)] mL_def st1_def)
  have cL: "stateCache mL cid = Some st1" by (simp add: mL_def)
  note rt = runTurnListeners_Suc[OF cL ok(2), of "turnListeners client"]
  show ?thesis
    using rt ok(3)
    by (auto simp add: sendMessageToCharacter_def g l[unfolded i_def] cl t Let_def st1_def)
qed

subsection \<open>Message turns and the identity flag\<close>

text \<open>
  Claim C3, as amended. For a character whose state has \<open>interactionCount\<close> 0 and
  \<open>identityEstablished\<close> false, the first message whose turn completes leaves the state
  with \<open>interactionCount\<close> 1 and \<open>identityEstablished\<close> already true: the handler of the
  completion marks identity whenever the count is at most 2. After the second message
  \<open>interactionCount\<close> is 2 and \<open>identityEstablished\<close> is still true.
\<close>

theorem early_turns_establish_identity:
  assumes "fst (getCharacterState env1 cid (stateManager svc)) = Some st"
    and "interactionCount st = 0" and "\<not> identityEstablished st"
    and "read_ok env1" "character_docs env1 cid = Some cfg1"
    and "add_ok env1" "write_ok env1" "connect_ok env1"
    and "backend_turn env1 = Completed chunks1"
    and "read_ok env2" "character_docs env2 cid = Some cfg2"
    and "add_ok env2" "write_ok env2" "connect_ok env2"
    and "backend_turn env2 = Completed chunks2"
  shows "\<exists>svc1 st1 svc2 st2.
       sendMessageToCharacter env1 cid text1 uid ch svc = (Inr (concat chunks1), svc1)
     \<and> stateCache (stateManager svc1) cid = Some st1
     \<and> interactionCount st1 = 1 \<and> identityEstablished st1
     \<and> sendMessageToCharacter env2 cid text2 uid ch svc1 = (Inr (concat chunks2), svc2)
     \<and> stateCache (stateManager svc2) cid = Some st2
     \<and> interactionCount st2 = 2 \<and> identityEstablished st2"
proof -
  from sendMessageToCharacter_completed[OF assms(4,5,1,6,7,8,9), of text1 uid ch]
  obtain svc1 st1 where
    a: "sendMessageToCharacter env1 cid text1 uid ch svc = (Inr (concat chunks1), svc1)"
    and c1: "stateCache (stateManager svc1) cid = Some st1"
    and n1: "interactionCount st1 = interactionCount st + 1"
    and i1: "identityEstablished st1 = (identityEstablished st \<or> interactionCount st + 1 \<le> 2)"
    by blast
  have s1: "fst (getCharacterState env2 cid (stateManager svc1)) = Some st1"
    by (simp add: getCharacterState_hit[OF c1])
  from sendMessageToCharacter_completed[OF assms(10,11) s1 assms(12,13,14,15), of text2 uid ch]
  obtain svc2 st2 where
    b: "sendMessageToCharacter env2 cid text2 uid ch svc1 = (Inr (concat chunks2), svc2)"
    and c2: "stateCache (stateManager svc2) cid = Some st2"
    and n2: "interactionCount st2 = interactionCount st1 + 1"
    and i2: "identityEstablished st2 = (identityEstablished st1 \<or> interactionCount st1 + 1 \<le> 2)"
    by blast
  show ?thesis
    using a c1 n1 i1 b c2 n2 i2 assms(2,3) by simp
qed

lemma svc_fresh_cache:
  "stateCache (stateManager svc_fresh) ''c1'' = Some (defaultState 1700000000000 emptyInitialState)"
  by (simp add: svc_fresh_def svc0_def m0_def env0_def initializeCharacter_def
      getCharacterState_def getCharacterState_try_def Let_def)

lemma defaultState_empty:
  "interactionCount (defaultState t emptyInitialState) = 0"
  "\<not> identityEstablished (defaultState t emptyInitialState)"
  "\<not> greetingCompleted (defaultState t emptyInitialState)"
  by (simp_all add: defaultState_fields emptyInitialState_def)

lemma env0_ok:
  "read_ok env0" "add_ok env0" "write_ok env0" "connect_ok env0" "send_ok env0"
  "callback_ok env0" "watch_ok env0" "notice_ok env0"
  "backend_turn env0 = Completed [''Hi '', ''there'']"
  "character_docs env0 ''c1'' = Some \<lparr>cfg_name = ''Ada'', cfg_greeting = None,
                                cfg_systemInstructions = ''You are Ada.'', cfg_group = None\<rparr>"
  by (simp_all add: env0_def)

text \<open>The default state of \<open>c1\<close>, then ``Hello'' and ``How are you?''.\<close>

theorem early_turns_establish_identity_witness:
  "fst (getCharacterState env0 ''c1'' (stateManager svc_fresh)) =
     Some (defaultState 1700000000000 emptyInitialState)
   \<and> interactionCount (defaultState 1700000000000 emptyInitialState) = 0
   \<and> \<not> identityEstablished (defaultState 1700000000000 emptyInitialState)
   \<and> read_ok env0 \<and> character_docs env0 ''c1'' \<noteq> None
   \<and> add_ok env0 \<and> write_ok env0 \<and> connect_ok env0
   \<and> backend_turn env0 = Completed [''Hi '', ''there'']
   \<and> (\<exists>svc1 st1 svc2 st2.
       sendMessageToCharacter env0 ''c1'' ''Hello'' (Some ''u1'') (Some ''u1_c1_1700000000000'')
          svc_fresh = (Inr ''Hi there'', svc1)
     \<and> stateCache (stateManager svc1) ''c1'' = Some st1
     \<and> interactionCount st1 = 1 \<and> identityEstablished st1
     \<and> sendMessageToCharacter env0 ''c1'' ''How are you?'' (Some ''u1'')
          (Some ''u1_c1_1700000000000'') svc1 = (Inr ''Hi there'', svc2)
     \<and> stateCache (stateManager svc2) ''c1'' = Some st2
     \<and> interactionCount st2 = 2 \<and> identityEstablished st2)"
proof -
  have h1: "fst (getCharacterState env0 ''c1'' (stateManager svc_fresh)) =
     Some (defaultState 1700000000000 emptyInitialState)"
    by (simp add: getCharacterState_hit[OF svc_fresh_cache])
  from early_turns_establish_identity[OF h1 defaultState_empty(1,2) env0_ok(1,10,2,3,4,9)
       env0_ok(1,10,2,3,4,9),
       of "''Hello''" "Some ''u1''" "Some ''u1_c1_1700000000000''" "''How are you?''"]
  show ?thesis
    using h1 defaultState_empty(1,2) env0_ok by simp
qed

text \<open>
  The claim as the specification states it fails: after the first completed turn on the
  default state \<open>identityEstablished\<close> is true, not false.
\<close>

theorem first_turn_identity_counterexample:
  "map_option interactionCount
     (stateCache (stateManager (snd (sendMessageToCharacter env0 ''c1'' ''Hello'' (Some ''u1'')
        (Some ''u1_c1_1700000000000'') svc_fresh))) ''c1'') = Some 1
   \<and> map_option identityEstablished
     (stateCache (stateManager (snd (sendMessageToCharacter env0 ''c1'' ''Hello'' (Some ''u1'')
        (Some ''u1_c1_1700000000000'') svc_fresh))) ''c1'') = Some True"
proof -
  have h1: "fst (getCharacterState env0 ''c1'' (stateManager svc_fresh)) =
     Some (defaultState 1700000000000 emptyInitialState)"
    by (simp add: getCharacterState_hit[OF svc_fresh_cache])
  from sendMessageToCharacter_completed[OF env0_ok(1,10) h1 env0_ok(2,3,4,9),
      of "''Hello''" "Some ''u1''" "Some ''u1_c1_1700000000000''"]
  show ?thesis
    by (auto simp: defaultState_empty)
qed

subsection \<open>Session initialization of a greeted character\<close>

lemma initializeCharacterSession_skip:
  assumes s: "fst (getCharacterState env cid (stateManager svc)) = Some st"
    and g: "greetingCompleted st"
    and r: "read_ok env" "character_docs env cid = Some cfg"
  shows "\<exists>svc1. initializeCharacterSession env cid False svc = (True, svc1)
       \<and> backend svc1 = backend svc
       \<and> stateCache (stateManager svc1) cid = Some st"
proof -
  from getCharacter_found[OF r s] obtain svc1 where
    gc: "getCharacter env cid svc = (Inr cfg, svc1)"
    and s1: "fst (getCharacterState env cid (stateManager svc1)) = Some st"
    and b: "backend svc1 = backend svc"
    by metis
  from s1 obtain m1 where gs: "getCharacterState env cid (stateManager svc1) = (Some st, m1)"
    and c1: "stateCache m1 cid = Some st"
    by (rule getCharacterState_pair)
  show ?thesis
    using g b c1 by (simp add: initializeCharacterSession_def gc gs)
qed

lemma initializeCharacterSession_lookup_fails:
  assumes "\<not> read_ok env \<or> character_docs env cid = None"
  shows "initializeCharacterSession env cid force svc =
           (False, svc\<lparr>characters := characters svc @ [StoreGet ''characters'' cid]\<rparr>)"
  using assms
  by (cases rule: getCharacter_cases[where env=env and cid=cid and svc=svc])
     (auto simp: initializeCharacterSession_def)

lemma initializeCharacterSession_no_backend:
  assumes s: "fst (getCharacterState env cid (stateManager svc)) = Some st"
    and g: "greetingCompleted st"
  shows "backend (snd (initializeCharacterSession env cid False svc)) = backend svc"
proof (cases "read_ok env \<and> character_docs env cid \<noteq> None")
  case True
  then obtain cfg where "read_ok env" "character_docs env cid = Some cfg" by auto
  from initializeCharacterSession_skip[OF s g this] show ?thesis by auto
next
  case False
  then have "\<not> read_ok env \<or> character_docs env cid = None" by auto
  from initializeCharacterSession_lookup_fails[OF this] show ?thesis by simp
qed

text \<open>
  Claim C6. For a character that is found and whose state has \<open>greetingCompleted\<close> true,
  \<open>initializeCharacterSession\<close> without \<open>forceGreeting\<close> returns \<open>true\<close> and calls the
  AI backend not at all (no connect, no send). A second such call, in whatever environment,
  calls the backend not at all either, and returns \<open>true\<close> when the character is found
  again.
\<close>

theorem initializeCharacterSession_idempotent_skip:
  assumes "fst (getCharacterState env cid (stateManager svc)) = Some st"
    and "greetingCompleted st"
    and "read_ok env" and "character_docs env cid = Some cfg"
  shows "fst (initializeCharacterSession env cid False svc)
     \<and> backend (snd (initializeCharacterSession env cid False svc)) = backend svc
     \<and> (\<forall>env2.
          backend (snd (initializeCharacterSession env2 cid False
                          (snd (initializeCharacterSession env cid False svc)))) = backend svc
        \<and> (read_ok env2 \<and> character_docs env2 cid \<noteq> None \<longrightarrow>
             fst (initializeCharacterSession env2 cid False
                    (snd (initializeCharacterSession env cid False svc)))))"
proof -
  from initializeCharacterSession_skip[OF assms] obtain svc1 where
    a: "initializeCharacterSession env cid False svc = (True, svc1)"
    and b: "backend svc1 = backend svc"
    and c: "stateCache (stateManager svc1) cid = Some st"
    by blast
  have s2: "fst (getCharacterState env2 cid (stateManager svc1)) = Some st" for env2
    by (simp add: getCharacterState_hit[OF c])
  have nb: "backend (snd (initializeCharacterSession env2 cid False svc1)) = backend svc" for env2
    using initializeCharacterSession_no_backend[OF s2 assms(2)] b by simp
  have ok: "fst (initializeCharacterSession env2 cid False svc1)"
    if "read_ok env2 \<and> character_docs env2 cid \<noteq> None" for env2
  proof -
    from that obtain cfg2 where "read_ok env2" "character_docs env2 cid = Some cfg2" by auto
    from initializeCharacterSession_skip[OF s2 assms(2) this] show ?thesis by auto
  qed
  show ?thesis using a b nb ok by simp
qed

lemma svc_known_sees:
  "fst (getCharacterState env ''c1'' (stateManager svc_known)) = Some st_known"
  by (simp add: svc_known_def m_known_def getCharacterState_def getCharacterState_try_def)

text \<open>Two calls on the greeted character \<open>c1\<close>: the trace of backend calls stays empty.\<close>

theorem initializeCharacterSession_idempotent_skip_witness:
  "fst (getCharacterState env0 ''c1'' (stateManager svc_known)) = Some st_known
   \<and> greetingCompleted st_known \<and> read_ok env0 \<and> character_docs env0 ''c1'' \<noteq> None
   \<and> fst (initializeCharacterSession env0 ''c1'' False svc_known)
   \<and> backend (snd (initializeCharacterSession env0 ''c1'' False svc_known)) = []
   \<and> fst (initializeCharacterSession env0 ''c1'' False
            (snd (initializeCharacterSession env0 ''c1'' False svc_known)))
   \<and> backend (snd (initializeCharacterSession env0 ''c1'' False
                      (snd (initializeCharacterSession env0 ''c1'' False svc_known)))) = []"
proof -
  have g: "greetingCompleted st_known" by (simp add: st_known_def)
  have b: "backend svc_known = []" by (simp add: svc_known_def svc0_def)
  from initializeCharacterSession_idempotent_skip[OF svc_known_sees g env0_ok(1,10)]
  show ?thesis
    using svc_known_sees[of env0] g env0_ok(1,10) b by simp
qed

subsection \<open>The greeting flag under every operation\<close>

lemma greeted_getCharacterState:
  "greeted c m \<Longrightarrow> greeted c (snd (getCharacterState env cid m))"
  by (cases env cid m rule: getCharacterState_cases) (auto simp: greeted_def)

lemma greeted_firestore [simp]: "greeted c (m\<lparr>firestore := fs\<rparr>) = greeted c m"
  by (simp add: greeted_def)

lemma greeted_setFlag [simp]: "greeted c (setConversationFlag a f v m) = greeted c m"
  by (simp add: greeted_def)

lemma greeted_clearFlag [simp]: "greeted c (clearConversationFlag a f m) = greeted c m"
  by (simp add: greeted_def)

lemma greeted_initializeCharacter:
  "greeted c m \<Longrightarrow> greeted c (snd (initializeCharacter env cid seed m))"
  by (cases env cid m rule: getCharacterState_cases)
     (auto simp: initializeCharacter_def Let_def greeted_def split: option.splits)

lemma greeted_updateGroup:
  "greeted c m \<Longrightarrow> greeted c (snd (updateGroup env cid g m))"
  by (cases env cid m rule: getCharacterState_cases)
     (auto simp: updateGroup_def Let_def greeted_def split: option.splits)

lemma greeted_markGreetingCompleted:
  "greeted c m \<Longrightarrow> greeted c (snd (markGreetingCompleted env cid m))"
  by (cases env cid m rule: getCharacterState_cases)
     (auto simp: markGreetingCompleted_def Let_def greeted_def split: option.splits)

lemma greeted_markIdentityEstablished:
  "greeted c m \<Longrightarrow> greeted c (snd (markIdentityEstablished env cid m))"
  by (cases env cid m rule: getCharacterState_cases)
     (auto simp: markIdentityEstablished_def Let_def greeted_def split: option.splits)

lemma greeted_logInteraction:
  "greeted c m \<Longrightarrow> greeted c (snd (logInteraction env cid i m))"
  by (cases env cid m rule: getCharacterState_cases)
     (auto simp: logInteraction_def logInteraction_try_def Let_def greeted_def split: option.splits)

lemma greeted_getEnhancedSystemInstructions:
  "greeted c m \<Longrightarrow> greeted c (snd (getEnhancedSystemInstructions env cid base m))"
  by (cases env cid m rule: getCharacterState_cases)
     (auto simp: getEnhancedSystemInstructions_def Let_def greeted_def split: option.splits)

lemma greeted_establishIdentity:
  "greeted c m \<Longrightarrow> greeted c (establishIdentity env cid m)"
  using greeted_markIdentityEstablished[of c _ env cid] greeted_getCharacterState[of c m env cid]
  by (auto simp: establishIdentity_def split: prod.splits option.splits)

lemma greeted_runTurnListeners:
  "greeted c m \<Longrightarrow> greeted c (runTurnListeners env cid n m)"
  unfolding runTurnListeners_def
  by (induction n) (auto intro: greeted_establishIdentity)

lemma greeted_completeGreeting:
  "greeted c m \<Longrightarrow> greeted c (completeGreeting env cid n m)"
  by (cases env cid m rule: getCharacterState_cases)
     (auto simp: completeGreeting_def Let_def greeted_def split: option.splits)

lemma greeted_getCharacter:
  "greeted c (stateManager svc) \<Longrightarrow> greeted c (stateManager (snd (getCharacter env cid svc)))"
  by (cases rule: getCharacter_cases[where env=env and cid=cid and svc=svc])
     (auto intro: greeted_getEnhancedSystemInstructions greeted_getCharacterState)

lemma stateManager_disconnectClient [simp]:
  "stateManager (disconnectClient cid svc) = stateManager svc"
  by (simp add: disconnectClient_def split: option.splits)

lemma greeted_updateCharacterGroup:
  assumes "greeted c (stateManager svc)"
  shows "greeted c (stateManager (snd (updateCharacterGroup env cid g svc)))"
proof -
  have u: "greeted c (snd (updateGroup env cid g (stateManager svc)))"
    by (rule greeted_updateGroup[OF assms])
  show ?thesis
  proof (cases "updateGroup env cid g (stateManager svc)")
    case (Pair r m1)
    with u have m1: "greeted c m1" by simp
    define s1 where "s1 = svc\<lparr> stateManager := m1,
                          characters := characters svc @ [StoreUpdate ''characters'' cid] \<rparr>"
    have "greeted c (stateManager s1)" using m1 by (simp add: s1_def)
    from greeted_getCharacter[OF this, of env cid]
    have gc: "greeted c (stateManager (snd (getCharacter env cid s1)))" .
    show ?thesis
      using m1 gc
      by (cases r) (auto simp: updateCharacterGroup_def Pair Let_def s1_def
          split: prod.splits sum.splits)
  qed
qed

lemma greeted_initializeCharacterSession:
  assumes "greeted c (stateManager svc)"
  shows "greeted c (stateManager (snd (initializeCharacterSession env cid force svc)))"
proof (cases "getCharacter env cid svc")
  case (Pair r s1)
  from greeted_getCharacter[OF assms, of env cid] Pair
  have g1: "greeted c (stateManager s1)" by simp
  show ?thesis
  proof (cases r)
    case (Inl e)
    then show ?thesis using g1 by (simp add: initializeCharacterSession_def Pair)
  next
    case (Inr character)
    obtain state m1 where gs: "getCharacterState env cid (stateManager s1) = (state, m1)"
      by (cases "getCharacterState env cid (stateManager s1)")
    from greeted_getCharacterState[OF g1, of env cid] gs have g2: "greeted c m1" by simp
    have g3: "greeted c (completeGreeting env cid n m1)" for n
      by (rule greeted_completeGreeting[OF g2])
    show ?thesis
      using g2 g3
      by (auto simp: initializeCharacterSession_def Pair Inr gs Let_def
          split: option.splits turn.splits)
  qed
qed

lemma greeted_sendMessageToCharacter:
  assumes "greeted c (stateManager svc)"
  shows "greeted c (stateManager (snd (sendMessageToCharacter env cid text uid ch svc)))"
proof (cases "getCharacter env cid svc")
  case (Pair r s1)
  from greeted_getCharacter[OF assms, of env cid] Pair
  have g1: "greeted c (stateManager s1)" by simp
  show ?thesis
  proof (cases r)
    case (Inl e)
    then show ?thesis using g1 by (simp add: sendMessageToCharacter_def Pair)
  next
    case (Inr character)
    have g2: "greeted c (snd (logInteraction env cid i (stateManager s1)))" for i
      by (rule greeted_logInteraction[OF g1])
    have g3: "greeted c (runTurnListeners env cid n (snd (logInteraction env cid i (stateManager s1))))"
      for i n
      by (rule greeted_runTurnListeners[OF g2])
    show ?thesis
      using g2 g3
      by (auto simp: sendMessageToCharacter_def Pair Inr Let_def
          split: option.splits turn.splits)
  qed
qed

lemma greeted_perform:
  "greeted c (stateManager svc) \<Longrightarrow> greeted c (stateManager (perform env operation svc))"
  by (cases operation)
     (simp_all add: greeted_initializeCharacter greeted_updateGroup greeted_markGreetingCompleted
        greeted_markIdentityEstablished greeted_logInteraction
        greeted_getEnhancedSystemInstructions greeted_getCharacter greeted_updateCharacterGroup
        greeted_initializeCharacterSession greeted_sendMessageToCharacter)

lemma greeted_run:
  "greeted c (stateManager svc) \<Longrightarrow> greeted c (stateManager (run steps svc))"
proof (induction steps arbitrary: svc)
  case Nil
  then show ?case by simp
next
  case (Cons step steps)
  obtain env operation where step: "step = (env, operation)" by (cases step)
  have "greeted c (stateManager (perform env operation svc))"
    by (rule greeted_perform[OF Cons.prems])
  then show ?case by (simp add: step Cons.IH)
qed

text \<open>
  Claim C4, as amended. When each operation has settled before the next begins (the
  write-backs that one completion event starts may reach the cache in either order), no
  operation of the state store or of the session service clears \<open>greetingCompleted\<close> in a
  state that the cache holds: in every state reached, by any sequence of these operations,
  from a cached state of the character with \<open>greetingCompleted\<close> true, the cached state
  has \<open>greetingCompleted\<close> true, and so \<open>identityEstablished\<close> implies
  \<open>greetingCompleted\<close> there.
\<close>

theorem greeting_flag_is_never_cleared:
  assumes "stateCache (stateManager svc) c = Some st" and "greetingCompleted st"
  shows "\<exists>st'. stateCache (stateManager (run steps svc)) c = Some st'
            \<and> greetingCompleted st'
            \<and> (identityEstablished st' \<longrightarrow> greetingCompleted st')"
proof -
  have "greeted c (stateManager svc)" using assms by (simp add: greeted_def)
  then have "greeted c (stateManager (run steps svc))" by (rule greeted_run)
  then show ?thesis by (auto simp: greeted_def split: option.splits)
qed

text \<open>
  The greeted character \<open>c1\<close> after a group change, a message turn and a forced greeting
  whose write-back is not the last to reach the cache.
\<close>

theorem greeting_flag_is_never_cleared_witness:
  "stateCache (stateManager svc_known) ''c1'' = Some st_known \<and> greetingCompleted st_known
   \<and> (\<exists>st'. stateCache (stateManager
                (run [(env0, UpdateGroup ''c1'' (Some ''beta'')),
                      (env0, SendMessageToCharacter ''c1'' ''Hello'' (Some ''u1'')
                               (Some ''u1_c1_1700000000000'')),
                      (env_race, InitializeCharacterSession ''c1'' True)] svc_known)) ''c1'' = Some st'
            \<and> greetingCompleted st'
            \<and> (identityEstablished st' \<longrightarrow> greetingCompleted st'))"
proof -
  have c: "stateCache (stateManager svc_known) ''c1'' = Some st_known"
    by (simp add: svc_known_def m_known_def)
  have g: "greetingCompleted st_known" by (simp add: st_known_def)
  note r = greeting_flag_is_never_cleared[OF c g,
      of "[(env0, UpdateGroup ''c1'' (Some ''beta'')),
           (env0, SendMessageToCharacter ''c1'' ''Hello'' (Some ''u1'')
                    (Some ''u1_c1_1700000000000'')),
           (env_race, InitializeCharacterSession ''c1'' True)]"]
  show ?thesis by (intro conjI) (rule c, rule g, rule r)
qed

text \<open>
  A state that is only in the store is not protected in this way: when the read fails,
  \<open>getCharacterState\<close> answers \<open>null\<close> and \<open>initializeCharacter\<close> writes the defaults over it.
\<close>

lemma initializeCharacter_after_failed_read:
  assumes "stateCache m cid = None" and "\<not> read_ok env" and "write_ok env"
  shows "fst (initializeCharacter env cid seed m) = Inr (defaultState (now env) seed)"
    and "StoreSet ''character_states'' cid \<in> set (firestore (snd (initializeCharacter env cid seed m)))"
  using assms
  by (simp_all add: initializeCharacter_def getCharacterState_def getCharacterState_try_def
      Let_def)

lemma svc_fresh_eq:
  "svc_fresh = svc0\<lparr>stateManager :=
      \<lparr>stateCache = [''c1'' \<mapsto> defaultState 1700000000000 emptyInitialState],
       conversationFlags = Map.empty,
       firestore = [StoreGet ''character_states'' ''c1'', StoreSet ''character_states'' ''c1'']\<rparr>\<rparr>"
  by (simp add: svc_fresh_def svc0_def m0_def env0_def initializeCharacter_def
      getCharacterState_def getCharacterState_try_def Let_def)

text \<open>A message turn that stays silent: one interaction, one handler left attached.\<close>

lemma silent_turn:
  "stateCache (stateManager (snd (sendMessageToCharacter env_silent ''c1'' ''Hello'' (Some ''u1'')
        (Some ''u1_c1_1700000000000'') svc_fresh))) ''c1'' =
     Some ((defaultState 1700000000000 emptyInitialState)
             \<lparr>interactionCount := 1, lastInteraction := 1700000000000,
              lastUpdated := Some 1700000000000\<rparr>)
   \<and> map_option turnListeners
       (characterClients (snd (sendMessageToCharacter env_silent ''c1'' ''Hello'' (Some ''u1'')
        (Some ''u1_c1_1700000000000'') svc_fresh)) ''c1'') = Some 1"
  by (simp add: svc_fresh_eq svc0_def sendMessageToCharacter_def getCharacter_def
      getCharacterState_def getCharacterState_try_def getEnhancedSystemInstructions_def
      logInteraction_def logInteraction_try_def getConversationFlag_def
      env_silent_def env0_def Let_def defaultState_fields emptyInitialState_def truthy_def)

text \<open>
  The greeting that follows completes and returns \<open>true\<close>; the handler of the earlier turn
  marks identity on its copy of the state, and when that copy reaches the cache last, the
  cached state has \<open>identityEstablished\<close> true and \<open>greetingCompleted\<close> false.
\<close>

lemma greeting_loses_the_race:
  "fst (initializeCharacterSession env_race ''c1'' True
         (snd (sendMessageToCharacter env_silent ''c1'' ''Hello'' (Some ''u1'')
            (Some ''u1_c1_1700000000000'') svc_fresh)))
   \<and> map_option identityEstablished
       (stateCache (stateManager (snd (initializeCharacterSession env_race ''c1'' True
         (snd (sendMessageToCharacter env_silent ''c1'' ''Hello'' (Some ''u1'')
            (Some ''u1_c1_1700000000000'') svc_fresh))))) ''c1'') = Some True
   \<and> map_option greetingCompleted
       (stateCache (stateManager (snd (initializeCharacterSession env_race ''c1'' True
         (snd (sendMessageToCharacter env_silent ''c1'' ''Hello'' (Some ''u1'')
            (Some ''u1_c1_1700000000000'') svc_fresh))))) ''c1'') = Some False"
proof -
  define s1 where "s1 = snd (sendMessageToCharacter env_silent ''c1'' ''Hello'' (Some ''u1'')
            (Some ''u1_c1_1700000000000'') svc_fresh)"
  from silent_turn obtain cl where
    c: "stateCache (stateManager s1) ''c1'' =
     Some ((defaultState 1700000000000 emptyInitialState)
             \<lparr>interactionCount := 1, lastInteraction := 1700000000000,
              lastUpdated := Some 1700000000000\<rparr>)"
    and l: "characterClients s1 ''c1'' = Some cl" "turnListeners cl = 1"
    unfolding s1_def by auto
  have e: "read_ok env_race" "write_ok env_race" "connect_ok env_race"
    "\<not> greeting_write_last env_race" "backend_turn env_race = Completed [''Hi '', ''there'']"
    "character_docs env_race ''c1'' = Some \<lparr>cfg_name = ''Ada'', cfg_greeting = None,
                                cfg_systemInstructions = ''You are Ada.'', cfg_group = None\<rparr>"
    by (simp_all add: env_race_def env0_def)
  show ?thesis
    unfolding s1_def[symmetric]
    by (simp add: initializeCharacterSession_def getCharacter_def l e Let_def
        getCharacterState_hit[OF c] completeGreeting_def c defaultState_fields
        emptyInitialState_def)
qed

text \<open>
  The claim as the specification states it fails. From the initialization defaults, one
  completed message turn, or one call of \<open>markIdentityEstablished\<close>, gives a state with
  \<open>identityEstablished\<close> true and \<open>greetingCompleted\<close> false; so does a silent message turn
  followed by a greeting that completes, when the write-back of the identity mark is the
  last to reach the cache.
\<close>

theorem identity_without_greeting_counterexample:
  "map_option identityEstablished
     (stateCache (stateManager
        (run [(env0, InitializeCharacter ''c1'' emptyInitialState),
              (env0, SendMessageToCharacter ''c1'' ''Hello'' (Some ''u1'')
                       (Some ''u1_c1_1700000000000''))] svc0)) ''c1'') = Some True
   \<and> map_option greetingCompleted
     (stateCache (stateManager
        (run [(env0, InitializeCharacter ''c1'' emptyInitialState),
              (env0, SendMessageToCharacter ''c1'' ''Hello'' (Some ''u1'')
                       (Some ''u1_c1_1700000000000''))] svc0)) ''c1'') = Some False
   \<and> map_option identityEstablished
     (stateCache (stateManager
        (run [(env0, InitializeCharacter ''c1'' emptyInitialState),
              (env0, MarkIdentityEstablished ''c1'')] svc0)) ''c1'') = Some True
   \<and> map_option greetingCompleted
     (stateCache (stateManager
        (run [(env0, InitializeCharacter ''c1'' emptyInitialState),
              (env0, MarkIdentityEstablished ''c1'')] svc0)) ''c1'') = Some False
   \<and> map_option identityEstablished
     (stateCache (stateManager
        (run [(env0, InitializeCharacter ''c1'' emptyInitialState),
              (env_silent, SendMessageToCharacter ''c1'' ''Hello'' (Some ''u1'')
                       (Some ''u1_c1_1700000000000'')),
              (env_race, InitializeCharacterSession ''c1'' True)] svc0)) ''c1'') = Some True
   \<and> map_option greetingCompleted
     (stateCache (stateManager
        (run [(env0, InitializeCharacter ''c1'' emptyInitialState),
              (env_silent, SendMessageToCharacter ''c1'' ''Hello'' (Some ''u1'')
                       (Some ''u1_c1_1700000000000'')),
              (env_race, InitializeCharacterSession ''c1'' True)] svc0)) ''c1'') = Some False"
proof -
  have h1: "fst (getCharacterState env0 ''c1'' (stateManager svc_fresh)) =
     Some (defaultState 1700000000000 emptyInitialState)"
    by (simp add: getCharacterState_hit[OF svc_fresh_cache])
  from sendMessageToCharacter_completed[OF env0_ok(1,10) h1 env0_ok(2,3,4,9),
      of "''Hello''" "Some ''u1''" "Some ''u1_c1_1700000000000''"]
  have a: "map_option identityEstablished
     (stateCache (stateManager (snd (sendMessageToCharacter env0 ''c1'' ''Hello'' (Some ''u1'')
        (Some ''u1_c1_1700000000000'') svc_fresh))) ''c1'') = Some True"
    "map_option greetingCompleted
     (stateCache (stateManager (snd (sendMessageToCharacter env0 ''c1'' ''Hello'' (Some ''u1'')
        (Some ''u1_c1_1700000000000'') svc_fresh))) ''c1'') = Some False"
    by (auto simp: defaultState_empty)
  have b: "map_option identityEstablished
     (stateCache (snd (markIdentityEstablished env0 ''c1'' (stateManager svc_fresh))) ''c1'') =
       Some True"
    "map_option greetingCompleted
     (stateCache (snd (markIdentityEstablished env0 ''c1'' (stateManager svc_fresh))) ''c1'') =
       Some False"
    by (simp_all add: markIdentityEstablished_def getCharacterState_hit[OF svc_fresh_cache]
        Let_def env0_ok defaultState_empty)
  note c = greeting_loses_the_race[THEN conjunct2]
  have r1: "run [(env0, InitializeCharacter ''c1'' emptyInitialState),
              (env0, SendMessageToCharacter ''c1'' ''Hello'' (Some ''u1'')
                       (Some ''u1_c1_1700000000000''))] svc0 =
            snd (sendMessageToCharacter env0 ''c1'' ''Hello'' (Some ''u1'')
                   (Some ''u1_c1_1700000000000'') svc_fresh)"
    by (simp add: svc_fresh_def)
  have r2: "stateManager (run [(env0, InitializeCharacter ''c1'' emptyInitialState),
              (env0, MarkIdentityEstablished ''c1'')] svc0) =
            snd (markIdentityEstablished env0 ''c1'' (stateManager svc_fresh))"
    by (simp add: svc_fresh_def)
  have r3: "run [(env0, InitializeCharacter ''c1'' emptyInitialState),
              (env_silent, SendMessageToCharacter ''c1'' ''Hello'' (Some ''u1'')
                       (Some ''u1_c1_1700000000000'')),
              (env_race, InitializeCharacterSession ''c1'' True)] svc0 =
            snd (initializeCharacterSession env_race ''c1'' True
              (snd (sendMessageToCharacter env_silent ''c1'' ''Hello'' (Some ''u1'')
                   (Some ''u1_c1_1700000000000'') svc_fresh)))"
    by (simp add: svc_fresh_def)
  show ?thesis
    unfolding r1 r2 r3 by (intro conjI) (rule a b c[THEN conjunct1] c[THEN conjunct2])+
qed

section \<open>Properties of the orchestrator\<close>

lemma length_js_split: "length (js_split c s) = Suc (count_list s c)"
  by (induction s) (auto split: list.splits)

lemma js_split_nonempty [simp]: "js_split c s \<noteq> []"
  by (induction s) (auto split: list.splits)


lemma addProcessed_mono: "x \<in> set ids \<Longrightarrow> x \<in> set (addProcessed y ids)"
  by (simp add: addProcessed_def)


lemma getCharacter_Inr:
  assumes "read_ok env" "character_docs env cid = Some cfg"
  shows "\<exists>svc1 client. getCharacter env cid svc = (Inr cfg, svc1)
            \<and> characterClients svc1 cid = Some client"
  using assms
  by (cases rule: getCharacter_cases[where env=env and cid=cid and svc=svc]) auto










lemma sendMessageToCharacter_replies:
  assumes "read_ok env" "character_docs env cid = Some cfg" "connect_ok env"
    and "backend_turn env = Completed chunks"
  shows "\<exists>svc'. sendMessageToCharacter env cid body uid ch svc = (Inr (concat chunks), svc')"
proof -
  from getCharacter_Inr[OF assms(1,2)] obtain svc1 client where
    g: "getCharacter env cid svc = (Inr cfg, svc1)" and c: "characterClients svc1 cid = Some client"
    by blast
  show ?thesis
    using assms(3,4) by (simp add: sendMessageToCharacter_def g c Let_def)
qed

lemma processCharacterMessage_replies:
  assumes "\<not> is_blank (msg_text msg)"
    and "read_ok env" "character_docs env cid = Some cfg" "connect_ok env"
    and "backend_turn env = Completed chunks" and "send_ok env" and "callback_ok env"
  shows "sent (processCharacterMessage env msg uid ch cid s) =
           sent s @ [\<lparr> out_channel = ch, out_text = concat chunks, out_user_id = cid,
                       out_character_name = Some (cfg_name cfg) \<rparr>]"
proof -
  from getCharacter_Inr[OF assms(2,3)] obtain svc1 where
    g1: "getCharacter env cid (characterService s) = (Inr cfg, svc1)"
    by blast
  from sendMessageToCharacter_replies[OF assms(2,3,4,5)] obtain svc2 where
    t: "sendMessageToCharacter env cid (render (msg_text msg)) uid (Some ch) svc1 =
          (Inr (concat chunks), svc2)"
    by blast
  from getCharacter_Inr[OF assms(2,3)] obtain svc3 where
    g3: "getCharacter env cid svc2 = (Inr cfg, svc3)"
    by blast
  show ?thesis
    using assms(1,6,7)
    by (simp add: processCharacterMessage_def processCharacterMessage_try_def g1 t
        sendMessageAsCharacter_def g3 storeInteraction_def Let_def)
qed


lemma parseChannelId_short:
  "length (js_split CHR ''_'' ch) < 3 \<Longrightarrow>
   parseChannelId ch = \<lparr>p_userId = None, p_characterId = None, p_timestamp = None\<rparr>"
  by (simp add: parseChannelId_def)

lemma parseChannelId_long:
  "length (js_split CHR ''_'' ch) \<ge> 3 \<Longrightarrow>
   parseChannelId ch =
     \<lparr> p_userId = Some (js_split CHR ''_'' ch ! 0),
       p_characterId = Some (js_split CHR ''_'' ch ! 1),
       p_timestamp = Some (parseInt10 (js_split CHR ''_'' ch ! 2)) \<rparr>"
  by (simp add: parseChannelId_def Let_def)

lemma handleIncomingMessage_routes:
  assumes "ev_message event = Some msg"
    and "msg_id msg \<notin> set (processedMessageIds s)"
    and "msg_user_id msg \<noteq> orchestratorId s"
    and "eventChannelId event = Inr (Some ch)"
    and "watch_ok env \<or> Some ch \<in> activeChannels s"
    and "length (js_split CHR ''_'' ch) \<ge> 3" and "js_split CHR ''_'' ch ! 1 \<noteq> []"
  shows "handleIncomingMessage env event s =
     processCharacterMessage env msg (Some (js_split CHR ''_'' ch ! 0)) ch
       (js_split CHR ''_'' ch ! 1)
       (s\<lparr> processedMessageIds :=
              keepRecent (addProcessed (msg_id msg) (processedMessageIds s)),
            activeChannels := insert (Some ch) (activeChannels s),
            channelToCharacterMap :=
              (if channelToCharacterMap s ch = None
               then (channelToCharacterMap s)(ch \<mapsto> js_split CHR ''_'' ch ! 1)
               else channelToCharacterMap s) \<rparr>)"
  using assms
  by (auto simp: handleIncomingMessage_def handleIncomingMessage_try_def Let_def
      parseChannelId_long)

lemma handleIncomingMessage_ignores:
  assumes "eventChannelId event = Inr (Some ch)"
    and "length (js_split CHR ''_'' ch) < 3 \<or> js_split CHR ''_'' ch ! 1 = []"
  shows "sent (handleIncomingMessage env event s) = sent s
       \<and> characterService (handleIncomingMessage env event s) = characterService s
       \<and> channelToCharacterMap (handleIncomingMessage env event s) = channelToCharacterMap s
       \<and> metricsDispatched (handleIncomingMessage env event s) = metricsDispatched s
       \<and> interactions (handleIncomingMessage env event s) = interactions s"
proof (cases "length (js_split CHR ''_'' ch) < 3")
  case True
  then show ?thesis
    using assms(1)
    by (auto simp: handleIncomingMessage_def handleIncomingMessage_try_def Let_def
        parseChannelId_short split: option.splits)
next
  case False
  then have l: "length (js_split CHR ''_'' ch) \<ge> 3" and e: "js_split CHR ''_'' ch ! 1 = []"
    using assms(2) by auto
  show ?thesis
    using assms(1) e
    by (auto simp: handleIncomingMessage_def handleIncomingMessage_try_def Let_def
        parseChannelId_long[OF l] split: option.splits)
qed

lemma handleIncomingMessage_replies:
  assumes "ev_message event = Some msg"
    and "msg_id msg \<notin> set (processedMessageIds s)"
    and "msg_user_id msg \<noteq> orchestratorId s"
    and "eventChannelId event = Inr (Some ch)"
    and "watch_ok env \<or> Some ch \<in> activeChannels s"
    and "length (js_split CHR ''_'' ch) \<ge> 3" and "js_split CHR ''_'' ch ! 1 \<noteq> []"
    and "\<not> is_blank (msg_text msg)"
    and "read_ok env" "character_docs env (js_split CHR ''_'' ch ! 1) = Some cfg" "connect_ok env"
    and "backend_turn env = Completed chunks" and "send_ok env" and "callback_ok env"
  shows "sent (handleIncomingMessage env event s) =
           sent s @ [\<lparr> out_channel = ch, out_text = concat chunks,
                       out_user_id = js_split CHR ''_'' ch ! 1,
                       out_character_name = Some (cfg_name cfg) \<rparr>]"
proof -
  let ?s3 = "s\<lparr> processedMessageIds :=
              keepRecent (addProcessed (msg_id msg) (processedMessageIds s)),
            activeChannels := insert (Some ch) (activeChannels s),
            channelToCharacterMap :=
              (if channelToCharacterMap s ch = None
               then (channelToCharacterMap s)(ch \<mapsto> js_split CHR ''_'' ch ! 1)
               else channelToCharacterMap s) \<rparr>"
  have r: "handleIncomingMessage env event s =
     processCharacterMessage env msg (Some (js_split CHR ''_'' ch ! 0)) ch
       (js_split CHR ''_'' ch ! 1) ?s3"
    by (rule handleIncomingMessage_routes[OF assms(1-7)])
  have p: "sent (processCharacterMessage env msg (Some (js_split CHR ''_'' ch ! 0)) ch
       (js_split CHR ''_'' ch ! 1) ?s3) =
     sent ?s3 @ [\<lparr> out_channel = ch, out_text = concat chunks,
                       out_user_id = js_split CHR ''_'' ch ! 1,
                       out_character_name = Some (cfg_name cfg) \<rparr>]"
    by (rule processCharacterMessage_replies[OF assms(8-14)])
  have q: "sent ?s3 = sent s" by simp
  show ?thesis unfolding r p q by (rule refl)
qed


lemma parse_examples:
  "parseChannelId ''u1_c1_1700000000000'' =
     \<lparr>p_userId = Some ''u1'', p_characterId = Some ''c1'', p_timestamp = Some (Num 1700000000000)\<rparr>"
  "parseChannelId ''randomchannel'' =
     \<lparr>p_userId = None, p_characterId = None, p_timestamp = None\<rparr>"
  "parseChannelId ''u1_c1_1700000000000_x'' =
     \<lparr>p_userId = Some ''u1'', p_characterId = Some ''c1'', p_timestamp = Some (Num 1700000000000)\<rparr>"
  by (simp_all add: parseChannelId_def parseInt10_def is_js_space_def is_digit_def digit_value_def)

lemma fixture_events:
  "ev_message ev_hello = Some msg_hello" "ev_message ev_own = Some msg_own"
  "ev_message ev_four = Some msg_hello" "ev_message ev_random = Some msg_hello"
  "eventChannelId ev_hello = Inr (Some ''u1_c1_1700000000000'')"
  "eventChannelId ev_four = Inr (Some ''u1_c1_1700000000000_x'')"
  "eventChannelId ev_random = Inr (Some ''randomchannel'')"
  "msg_id msg_hello \<notin> set (processedMessageIds orch0)"
  "msg_user_id msg_hello \<noteq> orchestratorId orch0"
  "msg_user_id msg_own = orchestratorId orch0"
  "\<not> is_blank (msg_text msg_hello)"
  "sent orch0 = []"
  by (simp_all add: ev_hello_def ev_own_def ev_four_def ev_random_def msg_hello_def msg_own_def
      orch0_def eventChannelId_def truthy_def is_blank_def is_js_space_def)

lemma fixture_fields:
  "js_split CHR ''_'' ''u1_c1_1700000000000'' = [''u1'', ''c1'', ''1700000000000'']"
  "js_split CHR ''_'' ''u1_c1_1700000000000_x'' = [''u1'', ''c1'', ''1700000000000'', ''x'']"
  "js_split CHR ''_'' ''randomchannel'' = [''randomchannel'']"
  by simp_all



text \<open>
  Claim C5, as amended. A channel identifier with fewer than three underscore-delimited
  fields parses to the all-absent result; one with three fields or more is parsed from its
  first three fields, whatever follows them. The orchestrator ignores a message on a
  channel whose identifier has fewer than three fields or an empty second field: it sends
  nothing and leaves the character service, the channel map, the metrics and the
  interaction log alone. On any other identifier it hands a new message of another user to
  the character named by the second field. \<open>u1_c1_1700000000000\<close> parses to user \<open>u1\<close>,
  character \<open>c1\<close>, time stamp 1700000000000, and \<open>randomchannel\<close> to the all-absent result.
\<close>

theorem channel_fields_decide_routing:
  "(length (js_split CHR ''_'' ch) < 3 \<longrightarrow>
      parseChannelId ch = \<lparr>p_userId = None, p_characterId = None, p_timestamp = None\<rparr>)
   \<and> (length (js_split CHR ''_'' ch) \<ge> 3 \<longrightarrow>
      parseChannelId ch =
        \<lparr> p_userId = Some (js_split CHR ''_'' ch ! 0),
          p_characterId = Some (js_split CHR ''_'' ch ! 1),
          p_timestamp = Some (parseInt10 (js_split CHR ''_'' ch ! 2)) \<rparr>)
   \<and> (eventChannelId event = Inr (Some ch)
        \<and> (length (js_split CHR ''_'' ch) < 3 \<or> js_split CHR ''_'' ch ! 1 = []) \<longrightarrow>
        sent (handleIncomingMessage env event s) = sent s
      \<and> characterService (handleIncomingMessage env event s) = characterService s
      \<and> channelToCharacterMap (handleIncomingMessage env event s) = channelToCharacterMap s
      \<and> metricsDispatched (handleIncomingMessage env event s) = metricsDispatched s
      \<and> interactions (handleIncomingMessage env event s) = interactions s)
   \<and> (ev_message event = Some msg \<and> msg_id msg \<notin> set (processedMessageIds s)
        \<and> msg_user_id msg \<noteq> orchestratorId s
        \<and> eventChannelId event = Inr (Some ch)
        \<and> (watch_ok env \<or> Some ch \<in> activeChannels s)
        \<and> length (js_split CHR ''_'' ch) \<ge> 3 \<and> js_split CHR ''_'' ch ! 1 \<noteq> [] \<longrightarrow>
        handleIncomingMessage env event s =
          processCharacterMessage env msg (Some (js_split CHR ''_'' ch ! 0)) ch
            (js_split CHR ''_'' ch ! 1)
            (s\<lparr> processedMessageIds :=
                   keepRecent (addProcessed (msg_id msg) (processedMessageIds s)),
                 activeChannels := insert (Some ch) (activeChannels s),
                 channelToCharacterMap :=
                   (if channelToCharacterMap s ch = None
                    then (channelToCharacterMap s)(ch \<mapsto> js_split CHR ''_'' ch ! 1)
                    else channelToCharacterMap s) \<rparr>))
   \<and> parseChannelId ''u1_c1_1700000000000'' =
       \<lparr>p_userId = Some ''u1'', p_characterId = Some ''c1'',
        p_timestamp = Some (Num 1700000000000)\<rparr>
   \<and> parseChannelId ''randomchannel'' =
       \<lparr>p_userId = None, p_characterId = None, p_timestamp = None\<rparr>"
proof (intro conjI impI)
  assume "length (js_split CHR ''_'' ch) < 3"
  then show "parseChannelId ch = \<lparr>p_userId = None, p_characterId = None, p_timestamp = None\<rparr>"
    by (rule parseChannelId_short)
next
  assume "length (js_split CHR ''_'' ch) \<ge> 3"
  then show "parseChannelId ch =
        \<lparr> p_userId = Some (js_split CHR ''_'' ch ! 0),
          p_characterId = Some (js_split CHR ''_'' ch ! 1),
          p_timestamp = Some (parseInt10 (js_split CHR ''_'' ch ! 2)) \<rparr>"
    by (rule parseChannelId_long)
next
  assume a: "eventChannelId event = Inr (Some ch)
        \<and> (length (js_split CHR ''_'' ch) < 3 \<or> js_split CHR ''_'' ch ! 1 = [])"
  then have i: "sent (handleIncomingMessage env event s) = sent s
       \<and> characterService (handleIncomingMessage env event s) = characterService s
       \<and> channelToCharacterMap (handleIncomingMessage env event s) = channelToCharacterMap s
       \<and> metricsDispatched (handleIncomingMessage env event s) = metricsDispatched s
       \<and> interactions (handleIncomingMessage env event s) = interactions s"
    by (intro handleIncomingMessage_ignores) blast+
  from i show "sent (handleIncomingMessage env event s) = sent s" by blast
  from i show "characterService (handleIncomingMessage env event s) = characterService s"
    by blast
  from i show "channelToCharacterMap (handleIncomingMessage env event s) =
      channelToCharacterMap s" by blast
  from i show "metricsDispatched (handleIncomingMessage env event s) = metricsDispatched s"
    by blast
  from i show "interactions (handleIncomingMessage env event s) = interactions s" by blast
next
  assume a: "ev_message event = Some msg \<and> msg_id msg \<notin> set (processedMessageIds s)
        \<and> msg_user_id msg \<noteq> orchestratorId s
        \<and> eventChannelId event = Inr (Some ch)
        \<and> (watch_ok env \<or> Some ch \<in> activeChannels s)
        \<and> length (js_split CHR ''_'' ch) \<ge> 3 \<and> js_split CHR ''_'' ch ! 1 \<noteq> []"
  show "handleIncomingMessage env event s =
          processCharacterMessage env msg (Some (js_split CHR ''_'' ch ! 0)) ch
            (js_split CHR ''_'' ch ! 1)
            (s\<lparr> processedMessageIds :=
                   keepRecent (addProcessed (msg_id msg) (processedMessageIds s)),
                 activeChannels := insert (Some ch) (activeChannels s),
                 channelToCharacterMap :=
                   (if channelToCharacterMap s ch = None
                    then (channelToCharacterMap s)(ch \<mapsto> js_split CHR ''_'' ch ! 1)
                    else channelToCharacterMap s) \<rparr>)"
    by (rule handleIncomingMessage_routes) (use a in blast)+
qed (rule parse_examples)+

text \<open>
  A message on \<open>randomchannel\<close> is ignored; the same message on \<open>u1_c1_1700000000000\<close> is
  handed to \<open>c1\<close>, who replies.
\<close>

theorem channel_fields_decide_routing_witness:
  "length (js_split CHR ''_'' ''randomchannel'') < 3
   \<and> eventChannelId ev_random = Inr (Some ''randomchannel'')
   \<and> sent (handleIncomingMessage env0 ev_random orch0) = []
   \<and> length (js_split CHR ''_'' ''u1_c1_1700000000000'') \<ge> 3
   \<and> js_split CHR ''_'' ''u1_c1_1700000000000'' ! 1 \<noteq> []
   \<and> ev_message ev_hello = Some msg_hello \<and> msg_id msg_hello \<notin> set (processedMessageIds orch0)
   \<and> msg_user_id msg_hello \<noteq> orchestratorId orch0
   \<and> eventChannelId ev_hello = Inr (Some ''u1_c1_1700000000000'') \<and> watch_ok env0
   \<and> sent (handleIncomingMessage env0 ev_hello orch0) =
        [\<lparr> out_channel = ''u1_c1_1700000000000'', out_text = ''Hi there'',
            out_user_id = ''c1'', out_character_name = Some ''Ada'' \<rparr>]"
proof -
  note random = channel_fields_decide_routing[where ch="''randomchannel''" and event=ev_random
      and env=env0 and s=orch0]
  have c_random: "sent (handleIncomingMessage env0 ev_random orch0) = []"
    using random by (simp add: fixture_events fixture_fields)
  note hello = channel_fields_decide_routing[where ch="''u1_c1_1700000000000''"
      and event=ev_hello and msg=msg_hello and env=env0 and s=orch0]
  have r: "handleIncomingMessage env0 ev_hello orch0 =
          processCharacterMessage env0 msg_hello (Some ''u1'') ''u1_c1_1700000000000'' ''c1''
            (orch0\<lparr> processedMessageIds :=
                   keepRecent (addProcessed (msg_id msg_hello) (processedMessageIds orch0)),
                 activeChannels := insert (Some ''u1_c1_1700000000000'') (activeChannels orch0),
                 channelToCharacterMap :=
                   (if channelToCharacterMap orch0 ''u1_c1_1700000000000'' = None
                    then (channelToCharacterMap orch0)(''u1_c1_1700000000000'' \<mapsto> ''c1'')
                    else channelToCharacterMap orch0) \<rparr>)"
    using hello by (simp add: fixture_events fixture_fields env0_ok)
  have c_hello: "sent (handleIncomingMessage env0 ev_hello orch0) =
        [\<lparr> out_channel = ''u1_c1_1700000000000'', out_text = ''Hi there'',
            out_user_id = ''c1'', out_character_name = Some ''Ada'' \<rparr>]"
    unfolding r
    by (simp add: processCharacterMessage_replies[OF fixture_events(11) env0_ok(1,10,4,9,5,6)]
        fixture_events)
  show ?thesis
    using c_random c_hello by (simp add: fixture_events fixture_fields env0_ok)
qed

text \<open>
  The claim as the specification states it fails: an identifier with four fields does not
  have the three-field shape, yet it parses to a character and the message on it is
  answered by that character.
\<close>

theorem four_field_channel_counterexample:
  "length (js_split CHR ''_'' ''u1_c1_1700000000000_x'') \<noteq> 3
   \<and> parseChannelId ''u1_c1_1700000000000_x'' =
       \<lparr>p_userId = Some ''u1'', p_characterId = Some ''c1'',
        p_timestamp = Some (Num 1700000000000)\<rparr>
   \<and> sent (handleIncomingMessage env0 ev_four orch0) =
       [\<lparr> out_channel = ''u1_c1_1700000000000_x'', out_text = ''Hi there'',
           out_user_id = ''c1'', out_character_name = Some ''Ada'' \<rparr>]"
proof -
  have "sent (handleIncomingMessage env0 ev_four orch0) =
       sent orch0 @ [\<lparr> out_channel = ''u1_c1_1700000000000_x'',
           out_text = concat [''Hi '', ''there''],
           out_user_id = js_split CHR ''_'' ''u1_c1_1700000000000_x'' ! 1,
           out_character_name = Some (cfg_name \<lparr>cfg_name = ''Ada'', cfg_greeting = None,
                                cfg_systemInstructions = ''You are Ada.'', cfg_group = None\<rparr>) \<rparr>]"
    by (rule handleIncomingMessage_replies[OF fixture_events(3,8,9,6)])
       (simp_all add: env0_ok fixture_events fixture_fields)
  then show ?thesis
    by (simp add: fixture_events fixture_fields parse_examples)
qed

section \<open>Properties of the metrics engine\<close>

subsection \<open>Numbers\<close>

lemma nearest_even_near: "\<bar>of_int (nearest_even q) - q\<bar> \<le> 1 / 2"
  unfolding nearest_even_def Let_def by (auto simp: abs_le_iff)

text \<open>In the normal range \<open>binade\<close> is the exponent of the power of two at or below.\<close>

lemma binade_bounds:
  assumes "2 powi (- 1022) \<le> \<bar>x\<bar>"
  shows "2 powi (binade x) \<le> \<bar>x\<bar> \<and> \<bar>x\<bar> < 2 powi (binade x + 1)"
proof (cases "1 \<le> \<bar>x\<bar>")
  case True
  define n where "n = \<lfloor>\<bar>x\<bar>\<rfloor>"
  have n: "0 < n" using True by (simp add: n_def)
  have b: "binade x = bitlen n - 1" using assms True by (simp add: binade_def Let_def n_def)
  from bitlen_bounds[OF n] have lo: "2 ^ nat (bitlen n - 1) \<le> n"
    and hi: "n < 2 ^ nat (bitlen n)" by auto
  have "bitlen n \<noteq> 0" using n by (simp add: bitlen_eq_zero_iff)
  with bitlen_nonneg[of n] have bl: "1 \<le> bitlen n" by linarith
  have "2 powi (bitlen n - 1) = (2::real) ^ nat (bitlen n - 1)"
    using bl by (simp add: power_int_def)
  also have "\<dots> = of_int (2 ^ nat (bitlen n - 1))" by simp
  also have "\<dots> \<le> of_int n" using lo by (simp only: of_int_le_iff)
  also have "\<dots> \<le> \<bar>x\<bar>" by (simp add: n_def)
  finally have 1: "2 powi (binade x) \<le> \<bar>x\<bar>" by (simp add: b)
  have h2: "n + 1 \<le> 2 ^ nat (bitlen n)" using hi by simp
  have "\<bar>x\<bar> < of_int (n + 1)" by (simp add: n_def)
  also have "\<dots> \<le> of_int (2 ^ nat (bitlen n))" using h2 by (simp only: of_int_le_iff)
  also have "\<dots> = 2 powi (bitlen n)" using bl by (simp add: power_int_def)
  finally have 2: "\<bar>x\<bar> < 2 powi (binade x + 1)" by (simp add: b)
  from 1 2 show ?thesis ..
next
  case False
  define a where "a = \<bar>x\<bar>"
  have "(0::real) < 2 powi (- 1022)" by simp
  with assms have a0: "0 < a" unfolding a_def by linarith
  have a1: "a < 1" using False by (simp add: a_def)
  define m where "m = \<lceil>1 / a\<rceil> - 1"
  have y: "1 < 1 / a" using a0 a1 by simp
  have m: "0 < m" using y unfolding m_def by linarith
  define k where "k = bitlen m"
  have b: "binade x = - k" using assms False by (simp add: binade_def Let_def a_def m_def k_def)
  from bitlen_bounds[OF m] have lo: "2 ^ nat (k - 1) \<le> m" and hi: "m < 2 ^ nat k"
    by (auto simp: k_def)
  have "k \<noteq> 0" using m by (simp add: k_def bitlen_eq_zero_iff)
  with bitlen_nonneg[of m] have kl: "1 \<le> k" unfolding k_def by linarith
  have h2: "m + 1 \<le> 2 ^ nat k" using hi by simp
  have "1 / a \<le> of_int (m + 1)" unfolding m_def by simp
  also have "\<dots> \<le> of_int (2 ^ nat k)" using h2 by (simp only: of_int_le_iff)
  finally have u: "1 / a \<le> 2 ^ nat k" by simp
  have p: "(2::real) powi (- k) = 1 / 2 ^ nat k"
    using kl by (simp add: power_int_def field_simps)
  have 1: "2 powi (- k) \<le> a" unfolding p using u a0 by (simp add: field_simps)
  have "of_int (2 ^ nat (k - 1)) \<le> (of_int m :: real)" using lo by (simp only: of_int_le_iff)
  also have "of_int m < 1 / a" unfolding m_def by linarith
  finally have l: "2 ^ nat (k - 1) < 1 / a" by simp
  have q: "(2::real) powi (- k + 1) = 1 / 2 ^ nat (k - 1)"
  proof -
    have "- k + 1 = - (k - 1)" by simp
    then show ?thesis
      using kl by (simp only: power_int_minus) (simp add: power_int_def field_simps)
  qed
  have 2: "a < 2 powi (- k + 1)" unfolding q using l a0 by (simp add: field_simps)
  from 1 2 show ?thesis unfolding b a_def[symmetric] ..
qed

text \<open>A result that is finite lies within half a step of the exact value.\<close>

lemma round_double_near:
  assumes "round_double x = Finite r"
  shows "\<bar>r - x\<bar> \<le> 2 powi (binade x - 53)"
proof -
  define u :: real where "u = 2 powi (binade x - 52)"
  have u: "0 < u" by (simp add: u_def)
  from assms have r: "r = of_int (nearest_even (x / u)) * u"
    by (auto simp: round_double_def Let_def u_def split: if_splits)
  have "\<bar>r - x\<bar> = \<bar>of_int (nearest_even (x / u)) - x / u\<bar> * u"
    using u by (simp add: r abs_mult[symmetric] left_diff_distrib abs_mult_pos)
  also have "\<dots> \<le> (1 / 2) * u"
    using nearest_even_near[of "x / u"] u by (intro mult_right_mono) simp_all
  also have "\<dots> = 2 powi (binade x - 53)"
  proof -
    have "(2::real) powi ((binade x - 53) + 1) = 2 powi (binade x - 53) * 2 powi 1"
      by (rule power_int_add) simp
    then have "u = 2 powi (binade x - 53) * 2" unfolding u_def by simp
    then show ?thesis by simp
  qed
  finally show ?thesis .
qed

lemma round_double_zero [simp]: "round_double 0 = Finite 0"
  by (simp add: round_double_def nearest_even_def)

lemma round_double_not_NaN [simp]: "round_double x \<noteq> NotANumber"
  by (simp add: round_double_def Let_def)

lemma round_double_in_range:
  assumes "\<bar>x\<bar> \<le> 2 ^ 1024 - 2 ^ 971"
  shows "\<exists>r. round_double x = Finite r"
proof -
  have "(2::real) ^ 970 < 2 ^ 971" by simp
  with assms have "\<not> 2 ^ 1024 - 2 ^ 970 \<le> \<bar>x\<bar>" by linarith
  then show ?thesis by (simp add: round_double_def Let_def)
qed

text \<open>The five weights, as the doubles that their literals denote.\<close>

lemma weights:
  "round_double (5 / 10) = Finite (1 / 2)"
  "round_double (7 / 10) = Finite (3152519739159347 / 4503599627370496)"
  "round_double (8 / 10) = Finite (3602879701896397 / 4503599627370496)"
  "round_double (6 / 10) = Finite (5404319552844595 / 9007199254740992)"
  "round_double (9 / 10) = Finite (8106479329266893 / 9007199254740992)"
  by (simp_all add: round_double_def binade_def nearest_even_def Let_def compute_bitlen)

lemma times_weight_finite:
  assumes "finiteNumber d" and "\<bar>w\<bar> \<le> 1"
  shows "\<exists>c. times_js d (Finite w) = Finite c"
proof -
  from assms(1) obtain x where d: "d = Finite x" and x: "\<bar>x\<bar> \<le> 2 ^ 1024 - 2 ^ 971"
    by (auto simp: finiteNumber_def split: double.splits)
  have "\<bar>x * w\<bar> \<le> \<bar>x\<bar> * 1" unfolding abs_mult by (rule mult_left_mono[OF assms(2)]) simp
  with x have "\<bar>x * w\<bar> \<le> 2 ^ 1024 - 2 ^ 971" by linarith
  from round_double_in_range[OF this] show ?thesis by (simp add: d)
qed

lemma plus_Finite_not_NaN: "v \<noteq> NotANumber \<Longrightarrow> plus_js v (Finite c) \<noteq> NotANumber"
  by (cases v) simp_all

lemma clamp_cases:
  "Math_min (Math_max v (Finite 0)) (Finite 10) = NotANumber \<and> v = NotANumber
   \<or> (\<exists>r. Math_min (Math_max v (Finite 0)) (Finite 10) = Finite r \<and> 0 \<le> r \<and> r \<le> 10)"
  by (cases v) (auto simp: Math_min_def Math_max_def)

subsection \<open>Scores\<close>

lemma keys_addTo [simp]: "map fst (addTo k x cs) = map fst cs"
  by (induction cs) (auto simp: addTo_def)

lemma keys_applyActivity [simp]: "map fst (applyActivity cs a) = map fst cs"
  by (simp add: applyActivity_def)

lemma keys_foldl_applyActivity [simp]: "map fst (foldl applyActivity cs as) = map fst cs"
  by (induction as arbitrary: cs) simp_all

lemma keys_normalizeCategories [simp]: "map fst (normalizeCategories cs) = map fst cs"
  by (induction cs) (auto simp: normalizeCategories_def)

lemma keys_baseline: "map fst baselineCategories = [''alpha'', ''beta'', ''gamma'', ''delta'', ''epsilon'']"
  by (simp add: baselineCategories_def)

lemma addTo_Finite_no_NaN:
  assumes "\<forall>(k, v) \<in> set cs. v \<noteq> NotANumber"
  shows "\<forall>(k, v) \<in> set (addTo key (Finite c) cs). v \<noteq> NotANumber"
  using assms by (auto simp: addTo_def plus_Finite_not_NaN split: if_splits)

lemma applyActivity_no_NaN:
  assumes "\<forall>(k, v) \<in> set cs. v \<noteq> NotANumber" and "magnitudesFinite a"
  shows "\<forall>(k, v) \<in> set (applyActivity cs a). v \<noteq> NotANumber"
proof -
  have w: "\<And>d w. finiteNumber d \<Longrightarrow> \<bar>w\<bar> \<le> 1 \<Longrightarrow> \<exists>c. times_js d (Finite w) = Finite c"
    by (rule times_weight_finite)
  consider (conversation) "act_type a = ''conversation''"
    | (challenge) "act_type a \<noteq> ''conversation''" "act_type a = ''challenge''"
    | (sharing) "act_type a \<noteq> ''conversation''" "act_type a \<noteq> ''challenge''"
        "act_type a = ''sharing''"
    | (other) "act_type a \<noteq> ''conversation''" "act_type a \<noteq> ''challenge''"
        "act_type a \<noteq> ''sharing''"
    by blast
  then show ?thesis
  proof cases
    case conversation
    with assms(2) have f: "finiteNumber (depth a)" "finiteNumber (reflection a)"
      by (simp_all add: magnitudesFinite_def)
    from w[OF f(1), of "1 / 2"] obtain c1 where
      "times_js (depth a) (Finite (1 / 2)) = Finite c1" by auto
    then have c1: "times_js (depth a) (round_double (5 / 10)) = Finite c1"
      by (simp only: weights)
    from w[OF f(2), of "3152519739159347 / 4503599627370496"] obtain c2 where
      "times_js (reflection a) (Finite (3152519739159347 / 4503599627370496)) = Finite c2" by auto
    then have c2: "times_js (reflection a) (round_double (7 / 10)) = Finite c2"
      by (simp only: weights)
    have "applyActivity cs a = addTo ''delta'' (Finite c2) (addTo ''beta'' (Finite c1) cs)"
      unfolding applyActivity_def if_P[OF conversation] c1 c2 by (rule refl)
    then show ?thesis by (simp only:) (intro addTo_Finite_no_NaN assms(1))
  next
    case challenge
    with assms(2) have f: "finiteNumber (persistence a)" "finiteNumber (creativity a)"
      by (simp_all add: magnitudesFinite_def)
    from w[OF f(1), of "3602879701896397 / 4503599627370496"] obtain c1 where
      "times_js (persistence a) (Finite (3602879701896397 / 4503599627370496)) = Finite c1" by auto
    then have c1: "times_js (persistence a) (round_double (8 / 10)) = Finite c1"
      by (simp only: weights)
    from w[OF f(2), of "5404319552844595 / 9007199254740992"] obtain c2 where
      "times_js (creativity a) (Finite (5404319552844595 / 9007199254740992)) = Finite c2" by auto
    then have c2: "times_js (creativity a) (round_double (6 / 10)) = Finite c2"
      by (simp only: weights)
    have "applyActivity cs a = addTo ''gamma'' (Finite c2) (addTo ''alpha'' (Finite c1) cs)"
      unfolding applyActivity_def if_not_P[OF challenge(1)] if_P[OF challenge(2)] c1 c2
      by (rule refl)
    then show ?thesis by (simp only:) (intro addTo_Finite_no_NaN assms(1))
  next
    case sharing
    with assms(2) have f: "finiteNumber (generosity a)"
      by (simp_all add: magnitudesFinite_def)
    from w[OF f(1), of "8106479329266893 / 9007199254740992"] obtain c1 where
      "times_js (generosity a) (Finite (8106479329266893 / 9007199254740992)) = Finite c1" by auto
    then have c1: "times_js (generosity a) (round_double (9 / 10)) = Finite c1"
      by (simp only: weights)
    have "applyActivity cs a = addTo ''epsilon'' (Finite c1) cs"
      unfolding applyActivity_def if_not_P[OF sharing(1)] if_not_P[OF sharing(2)]
        if_P[OF sharing(3)] c1
      by (rule refl)
    then show ?thesis by (simp only:) (intro addTo_Finite_no_NaN assms(1))
  next
    case other
    have "applyActivity cs a = cs"
      unfolding applyActivity_def if_not_P[OF other(1)] if_not_P[OF other(2)]
        if_not_P[OF other(3)]
      by (rule refl)
    then show ?thesis using assms(1) by (simp only:)
  qed
qed

lemma foldl_applyActivity_no_NaN:
  assumes "\<forall>(k, v) \<in> set cs. v \<noteq> NotANumber" and "\<forall>a \<in> set as. magnitudesFinite a"
  shows "\<forall>(k, v) \<in> set (foldl applyActivity cs as). v \<noteq> NotANumber"
  using assms
proof (induction as arbitrary: cs)
  case Nil
  then show ?case by simp
next
  case (Cons a as)
  from Cons.prems have "\<forall>(k, v) \<in> set (applyActivity cs a). v \<noteq> NotANumber"
    by (intro applyActivity_no_NaN) simp_all
  with Cons.prems(2) show ?case by (simp add: Cons.IH)
qed

lemma baseline_no_NaN: "\<forall>(k, v) \<in> set baselineCategories. v \<noteq> NotANumber"
  by (simp add: baselineCategories_def)

lemma normalizeCategories_range:
  assumes "(k, v) \<in> set (normalizeCategories cs)"
  shows "v = NotANumber \<or> (\<exists>r. v = Finite r \<and> 0 \<le> r \<and> r \<le> 10)"
proof -
  from assms obtain v0 where "v = Math_min (Math_max v0 (Finite 0)) (Finite 10)"
    by (auto simp: normalizeCategories_def)
  with clamp_cases[of v0] show ?thesis by auto
qed

lemma normalizeCategories_no_NaN:
  assumes "\<forall>(k, v) \<in> set cs. v \<noteq> NotANumber" and "(k, v) \<in> set (normalizeCategories cs)"
  shows "\<exists>r. v = Finite r \<and> 0 \<le> r \<and> r \<le> 10"
proof -
  from assms(2) obtain v0 where v: "v = Math_min (Math_max v0 (Finite 0)) (Finite 10)"
    and m: "(k, v0) \<in> set cs"
    by (auto simp: normalizeCategories_def)
  from assms(1) m have "v0 \<noteq> NotANumber" by auto
  with clamp_cases[of v0] v show ?thesis by auto
qed

lemma calculateUserMetrics_result:
  assumes "write_ok env"
  shows "fst (calculateUserMetrics env uid as ms) =
     Inr (Metrics (now env) uid
            (normalizeCategories (foldl applyActivity baselineCategories as))
            (case fst (getUserMetrics env uid ms) of
               None \<Rightarrow> [] | Some previous \<Rightarrow> m_history previous @ [previous])
            (primaryGroupOf (normalizeCategories (foldl applyActivity baselineCategories as))))"
  using assms
  by (simp add: calculateUserMetrics_def storeMetrics_def Let_def split: prod.splits)

text \<open>
  Claim C7, as amended. The snapshot that \<open>calculateUserMetrics\<close> stores and returns has the
  five categories alpha, beta, gamma, delta, epsilon, and each value is either \<open>NaN\<close> or a
  number in the closed interval from 0 to 10. When every magnitude that the activities
  contribute is a finite number, however large, no value is \<open>NaN\<close>: each lies in the interval
  from 0 to 10.
\<close>

theorem calculateUserMetrics_clamps:
  assumes "write_ok env"
  shows "\<exists>m. fst (calculateUserMetrics env uid as ms) = Inr m
           \<and> map fst (m_categories m) = [''alpha'', ''beta'', ''gamma'', ''delta'', ''epsilon'']
           \<and> (\<forall>k v. (k, v) \<in> set (m_categories m) \<longrightarrow>
                  v = NotANumber \<or> (\<exists>r. v = Finite r \<and> 0 \<le> r \<and> r \<le> 10))
           \<and> ((\<forall>a \<in> set as. magnitudesFinite a) \<longrightarrow>
                (\<forall>k v. (k, v) \<in> set (m_categories m) \<longrightarrow>
                   (\<exists>r. v = Finite r \<and> 0 \<le> r \<and> r \<le> 10)))"
proof -
  define cs where "cs = foldl applyActivity baselineCategories as"
  have r: "\<forall>k v. (k, v) \<in> set (normalizeCategories cs) \<longrightarrow>
             v = NotANumber \<or> (\<exists>r. v = Finite r \<and> 0 \<le> r \<and> r \<le> 10)"
    using normalizeCategories_range by blast
  have f: "(\<forall>a \<in> set as. magnitudesFinite a) \<longrightarrow>
             (\<forall>k v. (k, v) \<in> set (normalizeCategories cs) \<longrightarrow>
                (\<exists>r. v = Finite r \<and> 0 \<le> r \<and> r \<le> 10))"
  proof (intro impI allI)
    fix k v
    assume a: "\<forall>a \<in> set as. magnitudesFinite a" and m: "(k, v) \<in> set (normalizeCategories cs)"
    from foldl_applyActivity_no_NaN[OF baseline_no_NaN a]
    have "\<forall>(k, v) \<in> set cs. v \<noteq> NotANumber" by (simp add: cs_def)
    from normalizeCategories_no_NaN[OF this m]
    show "\<exists>r. v = Finite r \<and> 0 \<le> r \<and> r \<le> 10" .
  qed
  have k: "map fst (normalizeCategories cs) = [''alpha'', ''beta'', ''gamma'', ''delta'', ''epsilon'']"
    by (simp add: cs_def keys_baseline)
  show ?thesis
    unfolding calculateUserMetrics_result[OF assms] cs_def[symmetric]
    using r f k by simp
qed


text \<open>
  The arithmetic of the examples. Rounding is visible in the products: \<open>3 * 0.6\<close> is
  \<open>1.7999999999999998\<close> and \<open>(35 / 3) * 0.6\<close> is \<open>6.999999999999999\<close>, while \<open>10 * 0.7\<close> is
  \<open>7\<close> and \<open>3.75 * 0.8\<close> is \<open>3\<close>.
\<close>

lemma roundings:
  "round_double 500000 = Finite 500000"
  "round_double (- 35) = Finite (- 35)"
  "round_double 7 = Finite 7"
  "round_double 3 = Finite 3"
  "round_double 8 = Finite 8"
  by (simp_all add: round_double_def binade_def nearest_even_def Let_def compute_bitlen)

lemma products:
  "times_js (Finite 1000000) (round_double (5 / 10)) = Finite 500000"
  "times_js (Finite (- 50)) (round_double (7 / 10)) = Finite (- 35)"
  "times_js (Finite 14) (round_double (5 / 10)) = Finite 7"
  "times_js (Finite 10) (round_double (7 / 10)) = Finite 7"
  "times_js (Finite (15 / 4)) (round_double (8 / 10)) = Finite 3"
  "times_js (Finite 16) (round_double (5 / 10)) = Finite 8"
  "times_js (Finite 0) (round_double (5 / 10)) = Finite 0"
  "times_js (Finite 0) (round_double (6 / 10)) = Finite 0"
  "times_js (Finite 0) (round_double (7 / 10)) = Finite 0"
  "times_js PlusInfinity (round_double (8 / 10)) = PlusInfinity"
  "times_js MinusInfinity (round_double (8 / 10)) = MinusInfinity"
  "times_js NotANumber (round_double (5 / 10)) = NotANumber"
  "times_js NotANumber (round_double (7 / 10)) = NotANumber"
  "times_js (Finite 3) (round_double (6 / 10)) = Finite (2026619832316723 / 1125899906842624)"
  "times_js (round_double (35 / 3)) (round_double (6 / 10)) =
     Finite (7881299347898367 / 1125899906842624)"
  by (simp_all add: round_double_def binade_def nearest_even_def Let_def compute_bitlen)

lemma applyActivity_conversation:
  assumes "act_type a = ''conversation''"
  shows "applyActivity cs a =
     addTo ''delta'' (times_js (reflection a) (round_double (7 / 10)))
       (addTo ''beta'' (times_js (depth a) (round_double (5 / 10))) cs)"
  unfolding applyActivity_def if_P[OF assms] by (rule refl)

lemma applyActivity_challenge:
  assumes "act_type a = ''challenge''"
  shows "applyActivity cs a =
     addTo ''gamma'' (times_js (creativity a) (round_double (6 / 10)))
       (addTo ''alpha'' (times_js (persistence a) (round_double (8 / 10))) cs)"
proof -
  have n: "act_type a \<noteq> ''conversation''" by (simp add: assms)
  show ?thesis unfolding applyActivity_def if_not_P[OF n] if_P[OF assms] by (rule refl)
qed

lemma applyActivity_fixtures:
  "applyActivity cs act_huge =
     addTo ''delta'' (Finite (- 35)) (addTo ''beta'' (Finite 500000) cs)"
  "applyActivity cs act_talk = addTo ''delta'' (Finite 7) (addTo ''beta'' (Finite 7) cs)"
  "applyActivity cs act_challenge = addTo ''gamma'' (Finite 0) (addTo ''alpha'' (Finite 3) cs)"
  "applyActivity cs act_up = addTo ''gamma'' (Finite 0) (addTo ''alpha'' PlusInfinity cs)"
  "applyActivity cs act_down = addTo ''gamma'' (Finite 0) (addTo ''alpha'' MinusInfinity cs)"
  "applyActivity cs act_deep = addTo ''delta'' (Finite 0) (addTo ''beta'' (Finite 8) cs)"
  "applyActivity cs act_bare = addTo ''delta'' NotANumber (addTo ''beta'' NotANumber cs)"
proof -
  have t: "act_type act_huge = ''conversation''" "act_type act_talk = ''conversation''"
    "act_type act_challenge = ''challenge''" "act_type act_up = ''challenge''"
    "act_type act_down = ''challenge''" "act_type act_deep = ''conversation''"
    "act_type act_bare = ''conversation''"
    by (simp_all add: act_huge_def act_talk_def act_challenge_def act_up_def act_down_def
        act_deep_def act_bare_def)
  have f: "depth act_huge = Finite 1000000" "reflection act_huge = Finite (- 50)"
    "depth act_talk = Finite 14" "reflection act_talk = Finite 10"
    "persistence act_challenge = Finite (15 / 4)" "creativity act_challenge = Finite 0"
    "persistence act_up = PlusInfinity" "creativity act_up = Finite 0"
    "persistence act_down = MinusInfinity" "creativity act_down = Finite 0"
    "depth act_deep = Finite 16" "reflection act_deep = Finite 0"
    "depth act_bare = NotANumber" "reflection act_bare = NotANumber"
    by (simp_all add: act_huge_def act_talk_def act_challenge_def act_up_def act_down_def
        act_deep_def act_bare_def)
  show "applyActivity cs act_huge =
     addTo ''delta'' (Finite (- 35)) (addTo ''beta'' (Finite 500000) cs)"
    unfolding applyActivity_conversation[OF t(1)] f products by (rule refl)
  show "applyActivity cs act_talk = addTo ''delta'' (Finite 7) (addTo ''beta'' (Finite 7) cs)"
    unfolding applyActivity_conversation[OF t(2)] f products by (rule refl)
  show "applyActivity cs act_challenge = addTo ''gamma'' (Finite 0) (addTo ''alpha'' (Finite 3) cs)"
    unfolding applyActivity_challenge[OF t(3)] f products by (rule refl)
  show "applyActivity cs act_up = addTo ''gamma'' (Finite 0) (addTo ''alpha'' PlusInfinity cs)"
    unfolding applyActivity_challenge[OF t(4)] f products by (rule refl)
  show "applyActivity cs act_down = addTo ''gamma'' (Finite 0) (addTo ''alpha'' MinusInfinity cs)"
    unfolding applyActivity_challenge[OF t(5)] f products by (rule refl)
  show "applyActivity cs act_deep = addTo ''delta'' (Finite 0) (addTo ''beta'' (Finite 8) cs)"
    unfolding applyActivity_conversation[OF t(6)] f products by (rule refl)
  show "applyActivity cs act_bare = addTo ''delta'' NotANumber (addTo ''beta'' NotANumber cs)"
    unfolding applyActivity_conversation[OF t(7)] f products by (rule refl)
qed

lemma scores_huge:
  "normalizeCategories (foldl applyActivity baselineCategories [act_huge]) =
     [(''alpha'', Finite 0), (''beta'', Finite 10), (''gamma'', Finite 0), (''delta'', Finite 0),
      (''epsilon'', Finite 0)]"
  by (simp add: normalizeCategories_def applyActivity_fixtures addTo_def baselineCategories_def
      roundings Math_min_def Math_max_def)

lemma scores_tie:
  "normalizeCategories (foldl applyActivity baselineCategories [act_talk, act_challenge]) =
     [(''alpha'', Finite 3), (''beta'', Finite 7), (''gamma'', Finite 0), (''delta'', Finite 7),
      (''epsilon'', Finite 0)]"
  by (simp add: normalizeCategories_def applyActivity_fixtures addTo_def baselineCategories_def
      roundings Math_min_def Math_max_def)

lemma scores_opposite_infinities:
  "normalizeCategories (foldl applyActivity baselineCategories [act_up, act_down]) =
     [(''alpha'', NotANumber), (''beta'', Finite 0), (''gamma'', Finite 0), (''delta'', Finite 0),
      (''epsilon'', Finite 0)]"
  by (simp add: normalizeCategories_def applyActivity_fixtures addTo_def baselineCategories_def
      roundings Math_min_def Math_max_def)

lemma scores_no_magnitudes:
  "normalizeCategories (foldl applyActivity baselineCategories [act_bare]) =
     [(''alpha'', Finite 0), (''beta'', NotANumber), (''gamma'', Finite 0),
      (''delta'', NotANumber), (''epsilon'', Finite 0)]"
  by (simp add: normalizeCategories_def applyActivity_fixtures addTo_def baselineCategories_def
      roundings Math_min_def Math_max_def)

lemma scores_NaN_first:
  "normalizeCategories (foldl applyActivity baselineCategories [act_up, act_down, act_deep]) =
     [(''alpha'', NotANumber), (''beta'', Finite 8), (''gamma'', Finite 0), (''delta'', Finite 0),
      (''epsilon'', Finite 0)]"
  by (simp add: normalizeCategories_def applyActivity_fixtures addTo_def baselineCategories_def
      roundings Math_min_def Math_max_def)

lemma primaryGroupOf_examples:
  "primaryGroupOf [(''alpha'', Finite 3), (''beta'', Finite 7), (''gamma'', Finite 7)] =
     Some ''beta''"
  "primaryGroupOf [(''alpha'', Finite 3), (''beta'', Finite 7), (''gamma'', Finite 7),
                   (''delta'', Finite 0), (''epsilon'', Finite 0)] = Some ''beta''"
  "primaryGroupOf [(''alpha'', Finite 3), (''beta'', Finite 7), (''gamma'', Finite 0),
                   (''delta'', Finite 7), (''epsilon'', Finite 0)] = Some ''beta''"
  "primaryGroupOf [(''alpha'', NotANumber), (''beta'', Finite 8), (''gamma'', Finite 0),
                   (''delta'', Finite 0), (''epsilon'', Finite 0)] = Some ''alpha''"
  by (simp_all add: primaryGroupOf_def greaterThan_js_def)

text \<open>
  A depth of a million and a reflection of minus fifty give beta 10 and delta 0.
\<close>

theorem calculateUserMetrics_clamps_witness:
  "write_ok env0
   \<and> magnitudesFinite act_huge
   \<and> (\<exists>m. fst (calculateUserMetrics env0 ''u1'' [act_huge] ms0) = Inr m
           \<and> map fst (m_categories m) = [''alpha'', ''beta'', ''gamma'', ''delta'', ''epsilon'']
           \<and> (\<forall>k v. (k, v) \<in> set (m_categories m) \<longrightarrow>
                  (\<exists>r. v = Finite r \<and> 0 \<le> r \<and> r \<le> 10)))
   \<and> map_sum id m_categories (fst (calculateUserMetrics env0 ''u1'' [act_huge] ms0)) =
       Inr [(''alpha'', Finite 0), (''beta'', Finite 10), (''gamma'', Finite 0),
            (''delta'', Finite 0), (''epsilon'', Finite 0)]"
proof (intro conjI)
  show w: "write_ok env0" by (rule env0_ok)
  show f1: "magnitudesFinite act_huge"
    by (simp add: magnitudesFinite_def finiteNumber_def act_huge_def)
  from f1 have f: "\<forall>a \<in> set [act_huge]. magnitudesFinite a" by simp
  from calculateUserMetrics_clamps[OF w, of "''u1''" "[act_huge]" ms0]
  obtain m where m: "fst (calculateUserMetrics env0 ''u1'' [act_huge] ms0) = Inr m"
    "map fst (m_categories m) = [''alpha'', ''beta'', ''gamma'', ''delta'', ''epsilon'']"
    and r: "(\<forall>a \<in> set [act_huge]. magnitudesFinite a) \<longrightarrow>
                (\<forall>k v. (k, v) \<in> set (m_categories m) \<longrightarrow>
                   (\<exists>r. v = Finite r \<and> 0 \<le> r \<and> r \<le> 10))"
    by (elim exE conjE)
  from r f have "\<forall>k v. (k, v) \<in> set (m_categories m) \<longrightarrow>
                   (\<exists>r. v = Finite r \<and> 0 \<le> r \<and> r \<le> 10)"
    by (rule mp)
  with m
  show "\<exists>m. fst (calculateUserMetrics env0 ''u1'' [act_huge] ms0) = Inr m
           \<and> map fst (m_categories m) = [''alpha'', ''beta'', ''gamma'', ''delta'', ''epsilon'']
           \<and> (\<forall>k v. (k, v) \<in> set (m_categories m) \<longrightarrow>
                  (\<exists>r. v = Finite r \<and> 0 \<le> r \<and> r \<le> 10))"
    by (intro exI[of _ m] conjI)
  show "map_sum id m_categories (fst (calculateUserMetrics env0 ''u1'' [act_huge] ms0)) =
       Inr [(''alpha'', Finite 0), (''beta'', Finite 10), (''gamma'', Finite 0),
            (''delta'', Finite 0), (''epsilon'', Finite 0)]"
    by (simp only: calculateUserMetrics_result[OF w] scores_huge) simp
qed

text \<open>
  The claim as the specification states it fails. A challenge of unbounded persistence
  followed by one of unbounded negative persistence leaves alpha at \<open>NaN\<close>, the sum of the
  two infinities; a conversation that carries no depth and no reflection leaves beta and
  delta at \<open>NaN\<close>. \<open>Math.max\<close> and \<open>Math.min\<close> pass \<open>NaN\<close> through.
\<close>

theorem clamp_passes_NaN_counterexample:
  "map_sum id m_categories (fst (calculateUserMetrics env0 ''u1'' [act_up, act_down] ms0)) =
       Inr [(''alpha'', NotANumber), (''beta'', Finite 0), (''gamma'', Finite 0),
            (''delta'', Finite 0), (''epsilon'', Finite 0)]
   \<and> map_sum id m_categories (fst (calculateUserMetrics env0 ''u1'' [act_bare] ms0)) =
       Inr [(''alpha'', Finite 0), (''beta'', NotANumber), (''gamma'', Finite 0),
            (''delta'', NotANumber), (''epsilon'', Finite 0)]"
proof (intro conjI)
  have w: "write_ok env0" by (rule env0_ok)
  show "map_sum id m_categories (fst (calculateUserMetrics env0 ''u1'' [act_up, act_down] ms0)) =
       Inr [(''alpha'', NotANumber), (''beta'', Finite 0), (''gamma'', Finite 0),
            (''delta'', Finite 0), (''epsilon'', Finite 0)]"
    by (simp only: calculateUserMetrics_result[OF w] scores_opposite_infinities) simp
  show "map_sum id m_categories (fst (calculateUserMetrics env0 ''u1'' [act_bare] ms0)) =
       Inr [(''alpha'', Finite 0), (''beta'', NotANumber), (''gamma'', Finite 0),
            (''delta'', NotANumber), (''epsilon'', Finite 0)]"
    by (simp only: calculateUserMetrics_result[OF w] scores_no_magnitudes) simp
qed

subsection \<open>The primary group\<close>

lemma map_of_nth:
  assumes "distinct ks" "ks = map fst cs" "i < length cs"
  shows "map_of cs (ks ! i) = Some (snd (cs ! i))"
  using assms by (metis map_of_eq_Some_iff nth_map nth_mem prod.collapse)

lemma all_Finite:
  assumes "\<forall>v \<in> set vs. \<exists>r. v = Finite r"
  shows "\<exists>rs. vs = map Finite rs"
  using assms
proof (induction vs)
  case Nil
  then show ?case by simp
next
  case (Cons v vs)
  then obtain r rs where "v = Finite r" "vs = map Finite rs" by auto
  then have "v # vs = map Finite (r # rs)" by simp
  then show ?case by (rule exI)
qed

lemma primaryGroup_fold:
  assumes d: "distinct ks" and k: "ks = map fst cs" and ne: "cs \<noteq> []" and n: "n \<le> length cs"
    and s: "map snd cs = map Finite rs"
  shows "\<exists>i < length cs.
           foldl (\<lambda>mx category.
                    if greaterThan_js (map_of cs category) (map_of cs mx) then category else mx)
             (ks ! 0) (take n ks) = ks ! i
         \<and> (\<forall>j < n. rs ! j \<le> rs ! i)
         \<and> (\<forall>j < i. rs ! j < rs ! i)"
  using n
proof (induction n)
  case 0
  then show ?case using ne by (intro exI[of _ 0]) simp
next
  case (Suc n)
  then have nl: "n < length cs" by simp
  then have nk: "n < length ks" by (simp add: k)
  have v: "\<And>j. j < length cs \<Longrightarrow> snd (cs ! j) = Finite (rs ! j)"
  proof -
    fix j assume j: "j < length cs"
    have l: "length rs = length cs" using arg_cong[OF s, of length] by simp
    have "snd (cs ! j) = map snd cs ! j" using j by simp
    also have "\<dots> = Finite (rs ! j)" unfolding s using j l by simp
    finally show "snd (cs ! j) = Finite (rs ! j)" .
  qed
  from Suc obtain i where i: "i < length cs"
    and f: "foldl (\<lambda>mx category.
                    if greaterThan_js (map_of cs category) (map_of cs mx) then category else mx)
             (ks ! 0) (take n ks) = ks ! i"
    and le: "\<forall>j < n. rs ! j \<le> rs ! i"
    and lt: "\<forall>j < i. rs ! j < rs ! i"
    by auto
  have t: "take (Suc n) ks = take n ks @ [ks ! n]"
    using nk by (simp add: take_Suc_conv_app_nth)
  have g: "greaterThan_js (map_of cs (ks ! n)) (map_of cs (ks ! i)) = (rs ! n > rs ! i)"
    by (simp add: map_of_nth[OF d k nl] map_of_nth[OF d k i] greaterThan_js_def v[OF nl] v[OF i])
  show ?case
  proof (cases "rs ! n > rs ! i")
    case True
    have "\<forall>j < Suc n. rs ! j \<le> rs ! n"
      using le True by (auto simp: less_Suc_eq intro: less_imp_le order_trans)
    moreover have "\<forall>j < n. rs ! j < rs ! n"
      using le True by (auto intro: le_less_trans)
    ultimately show ?thesis
      using nl True by (intro exI[of _ n]) (simp add: t f g)
  next
    case False
    have "\<forall>j < Suc n. rs ! j \<le> rs ! i"
      using le False by (auto simp: less_Suc_eq)
    then show ?thesis
      using i lt False by (intro exI[of _ i]) (simp add: t f g)
  qed
qed

lemma primaryGroupOf_first_maximum:
  assumes d: "distinct ks" and k: "ks = map fst cs" and ne: "cs \<noteq> []"
    and s: "map snd cs = map Finite rs"
  shows "\<exists>i < length cs. primaryGroupOf cs = Some (ks ! i)
         \<and> (\<forall>j < length cs. rs ! j \<le> rs ! i)
         \<and> (\<forall>j < i. rs ! j < rs ! i)"
proof -
  from ne k obtain k0 kt where ks: "ks = k0 # kt" by (cases cs) auto
  have len: "length ks = length cs" by (simp add: k)
  have p: "primaryGroupOf cs =
     Some (foldl (\<lambda>mx category.
                    if greaterThan_js (map_of cs category) (map_of cs mx) then category else mx)
             (ks ! 0) (take (length cs) ks))"
    unfolding primaryGroupOf_def k[symmetric] len[symmetric] by (simp add: ks)
  from primaryGroup_fold[OF d k ne le_refl s] show ?thesis unfolding p by simp
qed

text \<open>
  Claim C8, as amended. Whenever no category value of the snapshot is \<open>NaN\<close>, as is the
  case when every magnitude that the activities contribute is a finite number, the
  \<open>primaryGroup\<close> that \<open>calculateUserMetrics\<close> computes is a category whose score no other
  category exceeds, and every category declared before it, in the order alpha, beta, gamma,
  delta, epsilon, has a strictly smaller score: it is the first of the categories with the
  highest score. For the categories alpha 3, beta 7, gamma 7 it is beta.
\<close>

theorem primaryGroup_is_first_maximum:
  "(write_ok env \<longrightarrow>
      (\<exists>m. fst (calculateUserMetrics env uid as ms) = Inr m
         \<and> map fst (m_categories m) = [''alpha'', ''beta'', ''gamma'', ''delta'', ''epsilon'']
         \<and> ((\<forall>a \<in> set as. magnitudesFinite a) \<longrightarrow>
              (\<forall>k v. (k, v) \<in> set (m_categories m) \<longrightarrow> v \<noteq> NotANumber))
         \<and> ((\<forall>k v. (k, v) \<in> set (m_categories m) \<longrightarrow> v \<noteq> NotANumber) \<longrightarrow>
              (\<exists>rs i. map snd (m_categories m) = map Finite rs
                 \<and> i < 5
                 \<and> m_primaryGroup m =
                     Some ([''alpha'', ''beta'', ''gamma'', ''delta'', ''epsilon''] ! i)
                 \<and> (\<forall>j < 5. rs ! j \<le> rs ! i)
                 \<and> (\<forall>j < i. rs ! j < rs ! i)))))
   \<and> primaryGroupOf [(''alpha'', Finite 3), (''beta'', Finite 7), (''gamma'', Finite 7)] =
       Some ''beta''
   \<and> primaryGroupOf [(''alpha'', Finite 3), (''beta'', Finite 7), (''gamma'', Finite 7),
                     (''delta'', Finite 0), (''epsilon'', Finite 0)] = Some ''beta''"
proof (intro conjI impI)
  assume w: "write_ok env"
  define cs where "cs = normalizeCategories (foldl applyActivity baselineCategories as)"
  have k: "[''alpha'', ''beta'', ''gamma'', ''delta'', ''epsilon''] = map fst cs"
    by (simp add: cs_def keys_baseline)
  have len: "length cs = 5" using arg_cong[OF k, of length] by simp
  then have ne: "cs \<noteq> []" by auto
  have d: "distinct [''alpha'', ''beta'', ''gamma'', ''delta'', ''epsilon'']" by simp
  have main: "(\<forall>k v. (k, v) \<in> set cs \<longrightarrow> v \<noteq> NotANumber) \<longrightarrow>
              (\<exists>rs i. map snd cs = map Finite rs
                 \<and> i < 5
                 \<and> primaryGroupOf cs =
                     Some ([''alpha'', ''beta'', ''gamma'', ''delta'', ''epsilon''] ! i)
                 \<and> (\<forall>j < 5. rs ! j \<le> rs ! i)
                 \<and> (\<forall>j < i. rs ! j < rs ! i))"
  proof
    assume nn: "\<forall>k v. (k, v) \<in> set cs \<longrightarrow> v \<noteq> NotANumber"
    have "\<forall>v \<in> set (map snd cs). \<exists>r. v = Finite r"
    proof
      fix v assume "v \<in> set (map snd cs)"
      then obtain k where m: "(k, v) \<in> set cs" by auto
      with nn have "v \<noteq> NotANumber" by blast
      with normalizeCategories_range[OF m[unfolded cs_def]] show "\<exists>r. v = Finite r" by blast
    qed
    from all_Finite[OF this] obtain rs where s: "map snd cs = map Finite rs" ..
    from primaryGroupOf_first_maximum[OF d k ne s] obtain i where
      i: "i < length cs"
      and p: "primaryGroupOf cs =
                Some ([''alpha'', ''beta'', ''gamma'', ''delta'', ''epsilon''] ! i)"
      and le: "\<forall>j < length cs. rs ! j \<le> rs ! i"
      and lt: "\<forall>j < i. rs ! j < rs ! i"
      by blast
    show "\<exists>rs i. map snd cs = map Finite rs
                 \<and> i < 5
                 \<and> primaryGroupOf cs =
                     Some ([''alpha'', ''beta'', ''gamma'', ''delta'', ''epsilon''] ! i)
                 \<and> (\<forall>j < 5. rs ! j \<le> rs ! i)
                 \<and> (\<forall>j < i. rs ! j < rs ! i)"
      using s i p le lt unfolding len by blast
  qed
  have fin: "(\<forall>a \<in> set as. magnitudesFinite a) \<longrightarrow>
               (\<forall>k v. (k, v) \<in> set cs \<longrightarrow> v \<noteq> NotANumber)"
  proof (intro impI allI)
    fix k v
    assume a: "\<forall>a \<in> set as. magnitudesFinite a" and m: "(k, v) \<in> set cs"
    from foldl_applyActivity_no_NaN[OF baseline_no_NaN a]
    have "\<forall>(k, v) \<in> set (foldl applyActivity baselineCategories as). v \<noteq> NotANumber" .
    from normalizeCategories_no_NaN[OF this m[unfolded cs_def]]
    show "v \<noteq> NotANumber" by auto
  qed
  show "\<exists>m. fst (calculateUserMetrics env uid as ms) = Inr m
         \<and> map fst (m_categories m) = [''alpha'', ''beta'', ''gamma'', ''delta'', ''epsilon'']
         \<and> ((\<forall>a \<in> set as. magnitudesFinite a) \<longrightarrow>
              (\<forall>k v. (k, v) \<in> set (m_categories m) \<longrightarrow> v \<noteq> NotANumber))
         \<and> ((\<forall>k v. (k, v) \<in> set (m_categories m) \<longrightarrow> v \<noteq> NotANumber) \<longrightarrow>
              (\<exists>rs i. map snd (m_categories m) = map Finite rs
                 \<and> i < 5
                 \<and> m_primaryGroup m =
                     Some ([''alpha'', ''beta'', ''gamma'', ''delta'', ''epsilon''] ! i)
                 \<and> (\<forall>j < 5. rs ! j \<le> rs ! i)
                 \<and> (\<forall>j < i. rs ! j < rs ! i)))"
    unfolding calculateUserMetrics_result[OF w] cs_def[symmetric]
    using main fin k[symmetric] by simp
qed (rule primaryGroupOf_examples)+

text \<open>
  Two activities of finite magnitudes that score alpha 3, beta 7 and delta 7: no value is
  \<open>NaN\<close>, and the primary group is beta, the first of the two categories at 7.
\<close>

theorem primaryGroup_is_first_maximum_witness:
  "write_ok env0
   \<and> magnitudesFinite act_talk \<and> magnitudesFinite act_challenge
   \<and> map_sum id m_categories
        (fst (calculateUserMetrics env0 ''u1'' [act_talk, act_challenge] ms0)) =
       Inr [(''alpha'', Finite 3), (''beta'', Finite 7), (''gamma'', Finite 0),
            (''delta'', Finite 7), (''epsilon'', Finite 0)]
   \<and> map_sum id m_primaryGroup
        (fst (calculateUserMetrics env0 ''u1'' [act_talk, act_challenge] ms0)) =
       Inr (Some ''beta'')
   \<and> (\<exists>m rs i. fst (calculateUserMetrics env0 ''u1'' [act_talk, act_challenge] ms0) = Inr m
         \<and> (\<forall>k v. (k, v) \<in> set (m_categories m) \<longrightarrow> v \<noteq> NotANumber)
         \<and> map snd (m_categories m) = map Finite rs
         \<and> i < 5
         \<and> m_primaryGroup m = Some ([''alpha'', ''beta'', ''gamma'', ''delta'', ''epsilon''] ! i)
         \<and> (\<forall>j < 5. rs ! j \<le> rs ! i)
         \<and> (\<forall>j < i. rs ! j < rs ! i))"
proof (intro conjI)
  show w: "write_ok env0" by (rule env0_ok)
  show f1: "magnitudesFinite act_talk"
    by (simp add: magnitudesFinite_def finiteNumber_def act_talk_def)
  show f2: "magnitudesFinite act_challenge"
    by (simp add: magnitudesFinite_def finiteNumber_def act_challenge_def)
  from f1 f2 have f: "\<forall>a \<in> set [act_talk, act_challenge]. magnitudesFinite a" by simp
  show c: "map_sum id m_categories
        (fst (calculateUserMetrics env0 ''u1'' [act_talk, act_challenge] ms0)) =
       Inr [(''alpha'', Finite 3), (''beta'', Finite 7), (''gamma'', Finite 0),
            (''delta'', Finite 7), (''epsilon'', Finite 0)]"
    by (simp only: calculateUserMetrics_result[OF w] scores_tie) simp
  show "map_sum id m_primaryGroup
        (fst (calculateUserMetrics env0 ''u1'' [act_talk, act_challenge] ms0)) =
       Inr (Some ''beta'')"
    by (simp only: calculateUserMetrics_result[OF w] scores_tie primaryGroupOf_examples) simp
  from primaryGroup_is_first_maximum[THEN conjunct1, rule_format, OF w,
      of "''u1''" "[act_talk, act_challenge]" ms0]
  obtain m where m: "fst (calculateUserMetrics env0 ''u1'' [act_talk, act_challenge] ms0) = Inr m"
    and g: "(\<forall>a \<in> set [act_talk, act_challenge]. magnitudesFinite a) \<longrightarrow>
              (\<forall>k v. (k, v) \<in> set (m_categories m) \<longrightarrow> v \<noteq> NotANumber)"
    and h: "(\<forall>k v. (k, v) \<in> set (m_categories m) \<longrightarrow> v \<noteq> NotANumber) \<longrightarrow>
              (\<exists>rs i. map snd (m_categories m) = map Finite rs
                 \<and> i < 5
                 \<and> m_primaryGroup m =
                     Some ([''alpha'', ''beta'', ''gamma'', ''delta'', ''epsilon''] ! i)
                 \<and> (\<forall>j < 5. rs ! j \<le> rs ! i)
                 \<and> (\<forall>j < i. rs ! j < rs ! i))"
    by blast
  from g f have nn: "\<forall>k v. (k, v) \<in> set (m_categories m) \<longrightarrow> v \<noteq> NotANumber"
    by (rule mp)
  from h nn m
  show "\<exists>m rs i. fst (calculateUserMetrics env0 ''u1'' [act_talk, act_challenge] ms0) = Inr m
         \<and> (\<forall>k v. (k, v) \<in> set (m_categories m) \<longrightarrow> v \<noteq> NotANumber)
         \<and> map snd (m_categories m) = map Finite rs
         \<and> i < 5
         \<and> m_primaryGroup m = Some ([''alpha'', ''beta'', ''gamma'', ''delta'', ''epsilon''] ! i)
         \<and> (\<forall>j < 5. rs ! j \<le> rs ! i)
         \<and> (\<forall>j < i. rs ! j < rs ! i)"
    by blast
qed

text \<open>
  The claim as the specification states it fails. After a challenge of unbounded persistence,
  one of unbounded negative persistence and a conversation of depth 16, alpha is \<open>NaN\<close> and
  beta is 8, the highest score; every comparison with \<open>NaN\<close> is false, so the \<open>reduce\<close> never
  leaves its first key and the primary group is alpha.
\<close>

theorem primaryGroup_NaN_counterexample:
  "map_sum id m_categories
      (fst (calculateUserMetrics env0 ''u1'' [act_up, act_down, act_deep] ms0)) =
     Inr [(''alpha'', NotANumber), (''beta'', Finite 8), (''gamma'', Finite 0),
          (''delta'', Finite 0), (''epsilon'', Finite 0)]
   \<and> map_sum id m_primaryGroup
      (fst (calculateUserMetrics env0 ''u1'' [act_up, act_down, act_deep] ms0)) =
     Inr (Some ''alpha'')"
proof (intro conjI)
  have w: "write_ok env0" by (rule env0_ok)
  show "map_sum id m_categories
      (fst (calculateUserMetrics env0 ''u1'' [act_up, act_down, act_deep] ms0)) =
     Inr [(''alpha'', NotANumber), (''beta'', Finite 8), (''gamma'', Finite 0),
          (''delta'', Finite 0), (''epsilon'', Finite 0)]"
    by (simp only: calculateUserMetrics_result[OF w] scores_NaN_first) simp
  show "map_sum id m_primaryGroup
      (fst (calculateUserMetrics env0 ''u1'' [act_up, act_down, act_deep] ms0)) =
     Inr (Some ''alpha'')"
    by (simp only: calculateUserMetrics_result[OF w] scores_NaN_first primaryGroupOf_examples)
      simp
qed

end
